theory Spec2Isabelle
  imports Complex_Main "HOL-Library.Word" "HOL-Library.Multiset" "HOL-Library.Monad_Syntax"
begin

unbundle bit_operations_syntax

section \<open>JavaScript strings\<close>

text \<open>
  The server code (\<^verbatim>\<open>server/routes.ts\<close>) works on JavaScript strings, which are
  sequences of UTF-16 code units. The model uses \<^typ>\<open>string\<close>: a list of \<^typ>\<open>char\<close>,
  each read as the code unit with the same number (0 to 255, the Latin-1 range). All
  string functions below are the ECMAScript ones restricted to that range.
\<close>

definition charCode :: "char \<Rightarrow> nat" where
  \<comment> \<open>\<^verbatim>\<open>s.charCodeAt(i)\<close> on one code unit\<close>
  "charCode c = of_char c"

definition isWhiteSpace :: "char \<Rightarrow> bool" where
  \<comment> \<open>WhiteSpace and LineTerminator of ECMAScript below 256: TAB, LF, VT, FF, CR, SP, NBSP;
      this is also the class \<^verbatim>\<open>\s\<close> of regular expressions\<close>
  "isWhiteSpace c = (charCode c \<in> {9, 10, 11, 12, 13, 32, 160})"

definition trim :: "string \<Rightarrow> string" where
  \<comment> \<open>\<^verbatim>\<open>String.prototype.trim\<close>\<close>
  "trim s = rev (dropWhile isWhiteSpace (rev (dropWhile isWhiteSpace s)))"

definition toLowerChar :: "char \<Rightarrow> char" where
  \<comment> \<open>lower-case mapping of one code unit below 256: A-Z, and the Latin-1 capitals
      0xC0-0xDE except the multiplication sign 0xD7, move up by 32\<close>
  "toLowerChar c =
     (let n = charCode c in
      if (65 \<le> n \<and> n \<le> 90) \<or> (192 \<le> n \<and> n \<le> 222 \<and> n \<noteq> 215)
      then char_of (n + 32) else c)"

definition toLowerCase :: "string \<Rightarrow> string" where
  \<comment> \<open>\<^verbatim>\<open>String.prototype.toLowerCase\<close>\<close>
  "toLowerCase s = map toLowerChar s"

fun startsWith :: "string \<Rightarrow> string \<Rightarrow> bool" where
  \<comment> \<open>\<^verbatim>\<open>s.startsWith(p)\<close>\<close>
  "startsWith s [] = True"
| "startsWith [] (p # ps) = False"
| "startsWith (c # cs) (p # ps) = (c = p \<and> startsWith cs ps)"

fun includesStr :: "string \<Rightarrow> string \<Rightarrow> bool" where
  \<comment> \<open>\<^verbatim>\<open>s.includes(p)\<close>: p occurs in s as a contiguous substring\<close>
  "includesStr [] p = (p = [])"
| "includesStr (c # cs) p = (startsWith (c # cs) p \<or> includesStr cs p)"

section \<open>Stable question id\<close>

text \<open>
  \<^verbatim>\<open>
  function generateQuestionId(cityPlaceId, difficulty, questionText) {
    const raw = `${cityPlaceId}|${difficulty}|${questionText}`;
    let hash = 0;
    for (let i = 0; i < raw.length; i++) {
      const chr = raw.charCodeAt(i);
      hash = ((hash << 5) - hash) + chr;
      hash |= 0;
    }
    return Math.abs(hash).toString(36);
  }
  \<close>
  \<^verbatim>\<open>hash\<close> is an int32 after every \<^verbatim>\<open>hash |= 0\<close>. The shift \<^verbatim>\<open>hash << 5\<close> wraps to 32 bits,
  the subtraction and the addition are exact on doubles (all values are below \<open>2^53\<close>), and
  \<^verbatim>\<open>|= 0\<close> wraps the sum to 32 bits again. So the loop body is arithmetic modulo \<open>2^32\<close>, read
  as two's complement: a \<^typ>\<open>32 word\<close> with \<^const>\<open>sint\<close>.
\<close>

definition hashStep :: "32 word \<Rightarrow> char \<Rightarrow> 32 word" where
  "hashStep hash chr = (push_bit 5 hash - hash) + of_nat (charCode chr)"

definition hashLoop :: "string \<Rightarrow> 32 word" where
  "hashLoop raw = foldl hashStep 0 raw"

definition digit36 :: "nat \<Rightarrow> char" where
  \<comment> \<open>the digit characters of \<^verbatim>\<open>Number.prototype.toString(radix)\<close>\<close>
  "digit36 d = ''0123456789abcdefghijklmnopqrstuvwxyz'' ! d"

function toString36 :: "nat \<Rightarrow> string" where
  \<comment> \<open>\<^verbatim>\<open>n.toString(36)\<close> for a non-negative integer n\<close>
  "toString36 n = (if n < 36 then [digit36 n] else toString36 (n div 36) @ [digit36 (n mod 36)])"
  by pat_completeness auto
termination
  by (relation "measure id") auto

declare toString36.simps [simp del]

definition generateQuestionId :: "string \<Rightarrow> string \<Rightarrow> string \<Rightarrow> string" where
  "generateQuestionId cityPlaceId difficulty questionText =
     (let raw = cityPlaceId @ ''|'' @ difficulty @ ''|'' @ questionText;
          hash = hashLoop raw
      in toString36 (nat \<bar>sint hash\<bar>))"

text \<open>
  The hash as the specification words it: \<open>h = h * 31 + charCode\<close>, wrapped to a signed
  32-bit integer after every character.
\<close>

definition wrapInt32 :: "int \<Rightarrow> int" where
  "wrapInt32 x = (x + 2 ^ 31) mod 2 ^ 32 - 2 ^ 31"

definition rollingHash31 :: "string \<Rightarrow> int" where
  "rollingHash31 raw = foldl (\<lambda>h c. wrapInt32 (h * 31 + int (charCode c))) 0 raw"

definition digitValue36 :: "char \<Rightarrow> nat option" where
  \<comment> \<open>the value of a base-36 digit character, \<open>None\<close> for any other character\<close>
  "digitValue36 c =
     (let n = charCode c in
      if 48 \<le> n \<and> n \<le> 57 then Some (n - 48)
      else if 97 \<le> n \<and> n \<le> 122 then Some (n - 87)
      else None)"

fun parseBase36 :: "nat \<Rightarrow> string \<Rightarrow> nat option" where
  \<comment> \<open>reads a string of base-36 digits, most significant first, onto the accumulator\<close>
  "parseBase36 acc [] = Some acc"
| "parseBase36 acc (c # cs) =
     (case digitValue36 c of None \<Rightarrow> None | Some d \<Rightarrow> parseBase36 (acc * 36 + d) cs)"

section \<open>Regular expressions\<close>

text \<open>
  The regular expressions of the source are written as terms of \<open>regex\<close>, one constructor
  per construct of the pattern, and run by a matcher that follows the pattern character by
  character (Brzozowski derivatives). The assertion \<^verbatim>\<open>\b\<close> is decided from the character
  before and the character after the current position.
\<close>

datatype cclass =
    CChar char          \<comment> \<open>a literal character\<close>
  | CCharI char         \<comment> \<open>a literal character under the flag \<^verbatim>\<open>i\<close>\<close>
  | CRange char char    \<comment> \<open>\<^verbatim>\<open>[a-z]\<close>\<close>
  | CDigit              \<comment> \<open>\<^verbatim>\<open>\d\<close>\<close>
  | CSpace              \<comment> \<open>\<^verbatim>\<open>\s\<close>\<close>
  | CDot                \<comment> \<open>\<^verbatim>\<open>.\<close>: anything but a line terminator\<close>
  | CAny                \<comment> \<open>\<^verbatim>\<open>[\s\S]\<close>\<close>
  | CUnion cclass cclass

datatype regex =
    Fail                \<comment> \<open>matches nothing\<close>
  | Eps                 \<comment> \<open>the empty pattern\<close>
  | Sym cclass
  | Seq regex regex
  | Alt regex regex     \<comment> \<open>\<^verbatim>\<open>r|s\<close>\<close>
  | Star regex          \<comment> \<open>\<^verbatim>\<open>r*\<close>\<close>
  | WordBoundary        \<comment> \<open>\<^verbatim>\<open>\b\<close>\<close>

definition isDigit :: "char \<Rightarrow> bool" where
  "isDigit c = (48 \<le> charCode c \<and> charCode c \<le> 57)"

definition isWordChar :: "char \<Rightarrow> bool" where
  \<comment> \<open>\<^verbatim>\<open>\w\<close>: \<^verbatim>\<open>[A-Za-z0-9_]\<close>\<close>
  "isWordChar c =
     (let n = charCode c in
      (65 \<le> n \<and> n \<le> 90) \<or> (97 \<le> n \<and> n \<le> 122) \<or> (48 \<le> n \<and> n \<le> 57) \<or> n = 95)"

definition isLineTerminator :: "char \<Rightarrow> bool" where
  \<comment> \<open>LF and CR (the other two line terminators are above 255)\<close>
  "isLineTerminator c = (charCode c = 10 \<or> charCode c = 13)"

fun classMatch :: "cclass \<Rightarrow> char \<Rightarrow> bool" where
  "classMatch (CChar p) c = (c = p)"
| "classMatch (CCharI p) c = (toLowerChar c = toLowerChar p)"
| "classMatch (CRange lo hi) c = (charCode lo \<le> charCode c \<and> charCode c \<le> charCode hi)"
| "classMatch CDigit c = isDigit c"
| "classMatch CSpace c = isWhiteSpace c"
| "classMatch CDot c = (\<not> isLineTerminator c)"
| "classMatch CAny c = True"
| "classMatch (CUnion a b) c = (classMatch a c \<or> classMatch b c)"

definition atWordBoundary :: "char option \<Rightarrow> char option \<Rightarrow> bool" where
  \<comment> \<open>\<^verbatim>\<open>\b\<close> between the previous and the next character (\<open>None\<close>: start or end of input)\<close>
  "atWordBoundary prev nxt =
     ((case prev of None \<Rightarrow> False | Some c \<Rightarrow> isWordChar c) \<noteq>
      (case nxt of None \<Rightarrow> False | Some c \<Rightarrow> isWordChar c))"

fun nullable :: "char option \<Rightarrow> char option \<Rightarrow> regex \<Rightarrow> bool" where
  \<comment> \<open>the pattern matches the empty string at a position with these neighbours\<close>
  "nullable prev nxt Fail = False"
| "nullable prev nxt Eps = True"
| "nullable prev nxt (Sym a) = False"
| "nullable prev nxt (Seq r s) = (nullable prev nxt r \<and> nullable prev nxt s)"
| "nullable prev nxt (Alt r s) = (nullable prev nxt r \<or> nullable prev nxt s)"
| "nullable prev nxt (Star r) = True"
| "nullable prev nxt WordBoundary = atWordBoundary prev nxt"

definition mkSeq :: "regex \<Rightarrow> regex \<Rightarrow> regex" where
  "mkSeq r s = (if r = Fail \<or> s = Fail then Fail else if r = Eps then s else Seq r s)"

definition mkAlt :: "regex \<Rightarrow> regex \<Rightarrow> regex" where
  "mkAlt r s = (if r = Fail then s else if s = Fail then r else Alt r s)"

fun deriv :: "char option \<Rightarrow> char \<Rightarrow> regex \<Rightarrow> regex" where
  \<comment> \<open>what is left of the pattern after it has read the character c that follows prev\<close>
  "deriv prev c Fail = Fail"
| "deriv prev c Eps = Fail"
| "deriv prev c (Sym a) = (if classMatch a c then Eps else Fail)"
| "deriv prev c (Seq r s) =
     (if nullable prev (Some c) r
      then mkAlt (mkSeq (deriv prev c r) s) (deriv prev c s)
      else mkSeq (deriv prev c r) s)"
| "deriv prev c (Alt r s) = mkAlt (deriv prev c r) (deriv prev c s)"
| "deriv prev c (Star r) = mkSeq (deriv prev c r) (Star r)"
| "deriv prev c WordBoundary = Fail"

fun matchPrefix :: "regex \<Rightarrow> char option \<Rightarrow> string \<Rightarrow> bool" where
  \<comment> \<open>the pattern matches some prefix of the string, which follows the character prev\<close>
  "matchPrefix r prev [] = nullable prev None r"
| "matchPrefix r prev (c # cs) =
     (if nullable prev (Some c) r then True
      else if deriv prev c r = Fail then False
      else matchPrefix (deriv prev c r) (Some c) cs)"

fun searchFrom :: "regex \<Rightarrow> char option \<Rightarrow> string \<Rightarrow> bool" where
  \<comment> \<open>the pattern matches at some position of the string\<close>
  "searchFrom r prev [] = matchPrefix r prev []"
| "searchFrom r prev (c # cs) =
     (if matchPrefix r prev (c # cs) then True else searchFrom r (Some c) cs)"

definition test :: "regex \<Rightarrow> string \<Rightarrow> bool" where
  \<comment> \<open>\<^verbatim>\<open>RegExp.prototype.test\<close> of a pattern without the flag \<^verbatim>\<open>g\<close>\<close>
  "test r s = searchFrom r None s"

definition lit :: "string \<Rightarrow> regex" where
  \<comment> \<open>a sequence of literal characters\<close>
  "lit s = foldr (\<lambda>c r. Seq (Sym (CChar c)) r) s Eps"

definition litI :: "string \<Rightarrow> regex" where
  \<comment> \<open>a sequence of literal characters under the flag \<^verbatim>\<open>i\<close>\<close>
  "litI s = foldr (\<lambda>c r. Seq (Sym (CCharI c)) r) s Eps"

definition Plus :: "regex \<Rightarrow> regex" where
  \<comment> \<open>\<^verbatim>\<open>r+\<close>, also \<^verbatim>\<open>r{1,}\<close>\<close>
  "Plus r = Seq r (Star r)"

definition Opt :: "regex \<Rightarrow> regex" where
  \<comment> \<open>\<^verbatim>\<open>r?\<close>\<close>
  "Opt r = Alt r Eps"

function splitRuns :: "(char \<Rightarrow> bool) \<Rightarrow> string \<Rightarrow> string \<Rightarrow> string list" where
  \<comment> \<open>\<^verbatim>\<open>s.split(/[sep]+/)\<close>: the pieces between maximal runs of separator characters,
      empty first and last pieces included; \<open>cur\<close> holds the current piece reversed\<close>
  "splitRuns sep cur [] = [rev cur]"
| "splitRuns sep cur (c # cs) =
     (if sep c then rev cur # splitRuns sep [] (dropWhile sep cs)
      else splitRuns sep (c # cur) cs)"
  by pat_completeness auto
termination
  by (relation "measure (\<lambda>(sep, cur, s). length s)")
     (auto simp: length_dropWhile_le less_Suc_eq_le)

section \<open>JavaScript values\<close>

text \<open>
  The validators take \<^verbatim>\<open>any\<close>: whatever \<^verbatim>\<open>JSON.parse\<close> made of the model's answer. The
  model has the values of JSON, and \<^verbatim>\<open>undefined\<close> for what a missing property reads as.
  A number is a \<^typ>\<open>rat\<close>: every finite double is one, and \<^verbatim>\<open>JSON.parse\<close> yields no NaN.
  An object is the list of its own properties in insertion order.
  A function that can throw returns an \<open>option\<close>: \<open>None\<close> is the exception (in this code
  always a \<^verbatim>\<open>TypeError\<close>), which every \<^verbatim>\<open>catch\<close> of the source treats alike.
\<close>

datatype jsval =
    JUndefined
  | JNull
  | JBool bool
  | JNum rat
  | JStr string
  | JArr "jsval list"
  | JObj "(string \<times> jsval) list"

fun truthy :: "jsval \<Rightarrow> bool" where
  \<comment> \<open>ToBoolean: what \<^verbatim>\<open>!v\<close>, \<^verbatim>\<open>v && ..\<close>, \<^verbatim>\<open>v || ..\<close> and \<^verbatim>\<open>Boolean(v)\<close> test\<close>
  "truthy JUndefined = False"
| "truthy JNull = False"
| "truthy (JBool b) = b"
| "truthy (JNum n) = (n \<noteq> 0)"
| "truthy (JStr s) = (s \<noteq> [])"
| "truthy (JArr xs) = True"
| "truthy (JObj kvs) = True"

fun getField :: "jsval \<Rightarrow> string \<Rightarrow> jsval option" where
  \<comment> \<open>\<^verbatim>\<open>v.name\<close> for the data properties this code reads (question, options, correctIndex,
      funFact, title, description, category, placeId, questions, city, cityPlaceId, address,
      lat, lon): none of them is a built-in property of a string, number, boolean or array, so
      only an object can have one; reading a property of \<^verbatim>\<open>null\<close> or \<^verbatim>\<open>undefined\<close> throws\<close>
  "getField JUndefined name = None"
| "getField JNull name = None"
| "getField (JObj kvs) name = Some (case map_of kvs name of None \<Rightarrow> JUndefined | Some v \<Rightarrow> v)"
| "getField (JBool b) name = Some JUndefined"
| "getField (JNum n) name = Some JUndefined"
| "getField (JStr s) name = Some JUndefined"
| "getField (JArr xs) name = Some JUndefined"

fun setField :: "(string \<times> jsval) list \<Rightarrow> string \<Rightarrow> jsval \<Rightarrow> (string \<times> jsval) list" where
  \<comment> \<open>a property written in an object literal after a spread: an existing key keeps its
      place and takes the new value, a new key goes to the end\<close>
  "setField [] name v = [(name, v)]"
| "setField ((k, w) # kvs) name v =
     (if k = name then (name, v) # kvs else (k, w) # setField kvs name v)"

fun ownFields :: "jsval \<Rightarrow> (string \<times> jsval) list" where
  \<comment> \<open>the properties that \<^verbatim>\<open>{...q}\<close> copies. Only an object reaches the spread in
      \<^verbatim>\<open>shuffleOptions\<close>: for any other value \<^verbatim>\<open>q.options\<close> is undefined and the first line of
      the function has thrown.\<close>
  "ownFields (JObj kvs) = kvs"
| "ownFields v = []"

fun strMethod :: "jsval \<Rightarrow> string option" where
  \<comment> \<open>the receiver of \<^verbatim>\<open>o.toLowerCase()\<close> or \<^verbatim>\<open>f.trim()\<close>: a string, or the call throws
      (the method is missing, or the property of that name is no function)\<close>
  "strMethod (JStr s) = Some s"
| "strMethod v = None"

fun isNumber :: "jsval \<Rightarrow> bool" where
  \<comment> \<open>\<^verbatim>\<open>typeof v === "number"\<close>\<close>
  "isNumber (JNum n) = True"
| "isNumber v = False"

fun numberOf :: "jsval \<Rightarrow> rat" where
  "numberOf (JNum n) = n"
| "numberOf v = 0"

fun isPrimitive :: "jsval \<Rightarrow> bool" where
  "isPrimitive (JArr xs) = False"
| "isPrimitive (JObj kvs) = False"
| "isPrimitive v = True"

text \<open>
  Two operations of the language are parameters of the model, because their full definition
  is outside this repository and no claim depends on it:
  \<^item> \<open>toStr\<close>: ToString of a value that is not a string (\<^verbatim>\<open>pat.test(q.question)\<close> converts
    its argument);
  \<^item> \<open>other\<close>: the property read \<^verbatim>\<open>x[key]\<close> where \<open>x\<close> is not an array or \<open>key\<close> is not a
    number.
  On strings, and on arrays read at a number, the model is exact.
\<close>

record host =
  toStr :: "jsval \<Rightarrow> string"
  other :: "jsval \<Rightarrow> jsval \<Rightarrow> jsval"

definition toString :: "host \<Rightarrow> jsval \<Rightarrow> string" where
  "toString h v = (case v of JStr s \<Rightarrow> s | _ \<Rightarrow> toStr h v)"

definition isInteger :: "rat \<Rightarrow> bool" where
  "isInteger r = (of_int \<lfloor>r\<rfloor> = r)"

definition getIndex :: "host \<Rightarrow> jsval \<Rightarrow> jsval \<Rightarrow> jsval option" where
  \<comment> \<open>\<^verbatim>\<open>x[key]\<close>: throws on \<^verbatim>\<open>null\<close> and \<^verbatim>\<open>undefined\<close>; an array read at a number has an
      element only at an integer from 0 to length - 1, and \<^verbatim>\<open>undefined\<close> elsewhere\<close>
  "getIndex h x key =
     (case x of
        JUndefined \<Rightarrow> None
      | JNull \<Rightarrow> None
      | JArr xs \<Rightarrow>
          (case key of
             JNum r \<Rightarrow>
               Some (if isInteger r \<and> 0 \<le> r \<and> r < of_nat (length xs)
                     then xs ! nat \<lfloor>r\<rfloor> else JUndefined)
           | _ \<Rightarrow> Some (other h x key))
      | _ \<Rightarrow> Some (other h x key))"

fun indexFrom :: "nat \<Rightarrow> jsval list \<Rightarrow> jsval \<Rightarrow> int" where
  "indexFrom i [] v = - 1"
| "indexFrom i (x # xs) v = (if x = v then int i else indexFrom (i + 1) xs v)"

definition indexOf :: "jsval list \<Rightarrow> jsval \<Rightarrow> int" where
  \<comment> \<open>\<^verbatim>\<open>xs.indexOf(v)\<close>: the first index whose element is \<^verbatim>\<open>===\<close> to v, or -1. On primitive
      values \<^verbatim>\<open>===\<close> is equality of values, as here; two arrays or objects are compared by
      reference, which the model does not have: it is exact where the array holds primitives
      (the validators let only strings through, and the curated tables hold strings).\<close>
  "indexOf xs v = indexFrom 0 xs v"

section \<open>Shuffling the options\<close>

text \<open>
  \<^verbatim>\<open>
  function shuffleOptions(q: any): any {
    const correctAnswer = q.options[q.correctIndex];
    const indices = [0, 1, 2, 3];
    for (let i = indices.length - 1; i > 0; i--) {
      const j = Math.floor(Math.random() * (i + 1));
      [indices[i], indices[j]] = [indices[j], indices[i]];
    }
    const shuffled = indices.map((i) => q.options[i]);
    return { ...q, options: shuffled, correctIndex: shuffled.indexOf(correctAnswer) };
  }
  \<close>
  \<^verbatim>\<open>Math.random()\<close> is the state of the model: \<open>rnd k\<close> is the value of the k-th call, and a
  function that draws returns the number of the next call. The contract of \<^verbatim>\<open>Math.random\<close>
  is \<open>randomOk\<close>: every value is at least 0 and less than 1. The product with \<open>i + 1\<close> is
  taken exactly; the rounding of the double product can only turn \<open>j\<close> into another value
  from 0 to i, which another draw gives exactly.
\<close>

type_synonym random = "nat \<Rightarrow> rat"

definition randomOk :: "random \<Rightarrow> bool" where
  "randomOk rnd = (\<forall>k. 0 \<le> rnd k \<and> rnd k < 1)"

definition randomIndex :: "rat \<Rightarrow> nat \<Rightarrow> nat" where
  \<comment> \<open>\<^verbatim>\<open>Math.floor(r * (i + 1))\<close>\<close>
  "randomIndex r i = nat \<lfloor>r * of_nat (i + 1)\<rfloor>"

definition swap :: "nat \<Rightarrow> nat \<Rightarrow> nat list \<Rightarrow> nat list" where
  \<comment> \<open>\<^verbatim>\<open>[xs[i], xs[j]] = [xs[j], xs[i]]\<close>: both reads happen before both writes; under
      \<open>randomOk\<close> j is at most i, which is below the length 4\<close>
  "swap i j xs = (let a = xs ! j; b = xs ! i in (xs[i := a])[j := b])"

fun shuffleLoop :: "random \<Rightarrow> nat \<Rightarrow> nat \<Rightarrow> nat list \<Rightarrow> nat list" where
  \<comment> \<open>the loop at \<open>i\<close>, counting down to 1; \<open>k\<close> is the number of the next draw\<close>
  "shuffleLoop rnd k 0 indices = indices"
| "shuffleLoop rnd k (Suc n) indices =
     shuffleLoop rnd (k + 1) n (swap (Suc n) (randomIndex (rnd k) (Suc n)) indices)"

fun mapM :: "('a \<Rightarrow> 'b option) \<Rightarrow> 'a list \<Rightarrow> 'b list option" where
  \<comment> \<open>\<^verbatim>\<open>xs.map(f)\<close> of a callback that can throw\<close>
  "mapM f [] = Some []"
| "mapM f (x # xs) =
     (case f x of None \<Rightarrow> None
      | Some y \<Rightarrow> (case mapM f xs of None \<Rightarrow> None | Some ys \<Rightarrow> Some (y # ys)))"

definition shuffleOptions :: "host \<Rightarrow> random \<Rightarrow> nat \<Rightarrow> jsval \<Rightarrow> (jsval \<times> nat) option" where
  "shuffleOptions h rnd k q = do {
     options \<leftarrow> getField q ''options'';
     correctIndex \<leftarrow> getField q ''correctIndex'';
     correctAnswer \<leftarrow> getIndex h options correctIndex;
     let indices = shuffleLoop rnd k 3 [0, 1, 2, 3];
     shuffled \<leftarrow> mapM (\<lambda>i. getIndex h options (JNum (of_nat i))) indices;
     Some (JObj (setField (setField (ownFields q) ''options'' (JArr shuffled))
                   ''correctIndex'' (JNum (of_int (indexOf shuffled correctAnswer)))),
           k + 3)
   }"

fun mapShuffle :: "host \<Rightarrow> random \<Rightarrow> nat \<Rightarrow> jsval list \<Rightarrow> (jsval list \<times> nat) option" where
  \<comment> \<open>\<^verbatim>\<open>questions.map(shuffleOptions)\<close>: in order, each call drawing after the one before\<close>
  "mapShuffle h rnd k [] = Some ([], k)"
| "mapShuffle h rnd k (q # qs) =
     (case shuffleOptions h rnd k q of
        None \<Rightarrow> None
      | Some (q', k') \<Rightarrow>
          (case mapShuffle h rnd k' qs of
             None \<Rightarrow> None
           | Some (qs', k'') \<Rightarrow> Some (q' # qs', k'')))"

section \<open>Validating trivia questions\<close>

text \<open>
  \<^verbatim>\<open>
  function validateTriviaQuestions(questions: any[], poiNames: string[]): any[] {
    const poiNamesLower = poiNames.map(n => n.toLowerCase());
    const GENERIC_PATTERNS = [
      /what is the capital/i, /which currency/i, /what language.*spoken/i,
      /what continent/i, /what is the population/i, /which country.*located/i,
    ];
    return questions
      .filter((q) => {
        try {
          if (!q.question || !Array.isArray(q.options) || q.options.length !== 4) return false;
          if (typeof q.correctIndex !== "number" || q.correctIndex < 0 || q.correctIndex > 3)
            return false;
          const uniqueOpts = new Set(q.options.map((o: string) => o.toLowerCase().trim()));
          if (uniqueOpts.size !== 4) return false;
          if (!q.funFact || q.funFact.trim().length < 5) return false;
          for (const pat of GENERIC_PATTERNS) {
            if (pat.test(q.question)) return false;
          }
          return true;
        } catch {
          return false;
        }
      })
      .map(shuffleOptions);
  }
  \<close>
\<close>

definition GENERIC_PATTERNS :: "regex list" where
  "GENERIC_PATTERNS =
     [litI ''what is the capital'',
      litI ''which currency'',
      Seq (litI ''what language'') (Seq (Star (Sym CDot)) (litI ''spoken'')),
      litI ''what continent'',
      litI ''what is the population'',
      Seq (litI ''which country'') (Seq (Star (Sym CDot)) (litI ''located''))]"

definition normalizeOption :: "jsval \<Rightarrow> string option" where
  \<comment> \<open>\<^verbatim>\<open>o.toLowerCase().trim()\<close>\<close>
  "normalizeOption opt = map_option (\<lambda>s. trim (toLowerCase s)) (strMethod opt)"

definition setSize :: "'a list \<Rightarrow> nat" where
  \<comment> \<open>\<^verbatim>\<open>new Set(xs).size\<close>: the number of distinct elements\<close>
  "setSize xs = length (remdups xs)"

definition triviaTry :: "host \<Rightarrow> jsval \<Rightarrow> bool option" where
  \<comment> \<open>the body of the \<^verbatim>\<open>try\<close> block of the filter callback\<close>
  "triviaTry h q = do {
     question \<leftarrow> getField q ''question'';
     if \<not> truthy question then Some False else do {
     options \<leftarrow> getField q ''options'';
     case options of
       JArr opts \<Rightarrow>
         if length opts \<noteq> 4 then Some False else do {
         correctIndex \<leftarrow> getField q ''correctIndex'';
         if \<not> isNumber correctIndex \<or> numberOf correctIndex < 0 \<or> numberOf correctIndex > 3
         then Some False else do {
         normalized \<leftarrow> mapM normalizeOption opts;
         if setSize normalized \<noteq> 4 then Some False else do {
         funFact \<leftarrow> getField q ''funFact'';
         if \<not> truthy funFact then Some False else do {
         trimmed \<leftarrow> map_option trim (strMethod funFact);
         if length trimmed < 5 then Some False
         else if list_ex (\<lambda>pat. test pat (toString h question)) GENERIC_PATTERNS then Some False
         else Some True
         }}}}
     | _ \<Rightarrow> Some False
     }}"

definition triviaFilter :: "host \<Rightarrow> jsval \<Rightarrow> bool" where
  \<comment> \<open>the filter callback: \<^verbatim>\<open>catch { return false; }\<close>\<close>
  "triviaFilter h q = (case triviaTry h q of None \<Rightarrow> False | Some b \<Rightarrow> b)"

definition validateTriviaQuestions ::
  "host \<Rightarrow> random \<Rightarrow> nat \<Rightarrow> jsval list \<Rightarrow> string list \<Rightarrow> (jsval list \<times> nat) option" where
  "validateTriviaQuestions h rnd k questions poiNames =
     mapShuffle h rnd k (filter (triviaFilter h) questions)"

section \<open>The distribution guard\<close>

text \<open>
  \<^verbatim>\<open>
  function checkAnswerDistribution(questions: any[]): boolean {
    if (questions.length < 4) return true;
    const allZero = questions.every((q) => q.correctIndex === 0);
    if (allZero) { console.error(..); return false; }
    return true;
  }
  \<close>
  and its one caller, in the handler of \<^verbatim>\<open>/api/quiz/generate\<close>:
  \<^verbatim>\<open>
      if (!checkAnswerDistribution(questions)) {
        questions = questions.map(shuffleOptions);
      }
  \<close>
\<close>

fun every :: "('a \<Rightarrow> bool option) \<Rightarrow> 'a list \<Rightarrow> bool option" where
  \<comment> \<open>\<^verbatim>\<open>xs.every(p)\<close>: stops at the first element where p is false or throws\<close>
  "every p [] = Some True"
| "every p (x # xs) =
     (case p x of None \<Rightarrow> None | Some b \<Rightarrow> if b then every p xs else Some False)"

definition correctIndexIsZero :: "jsval \<Rightarrow> bool option" where
  \<comment> \<open>\<^verbatim>\<open>q.correctIndex === 0\<close>\<close>
  "correctIndexIsZero q = map_option (\<lambda>ci. ci = JNum 0) (getField q ''correctIndex'')"

definition checkAnswerDistribution :: "jsval list \<Rightarrow> bool option" where
  "checkAnswerDistribution questions =
     (if length questions < 4 then Some True
      else do {
        allZero \<leftarrow> every correctIndexIsZero questions;
        if allZero then Some False else Some True
      })"

definition distributionGuard ::
  "host \<Rightarrow> random \<Rightarrow> nat \<Rightarrow> jsval list \<Rightarrow> (jsval list \<times> nat) option" where
  "distributionGuard h rnd k questions = do {
     ok \<leftarrow> checkAnswerDistribution questions;
     if \<not> ok then mapShuffle h rnd k questions else Some (questions, k)
   }"

section \<open>Validating suggestions\<close>

text \<open>
  \<^verbatim>\<open>
  function validateSuggestions(suggestions: any[], excludeTitles: string[] = [],
                               excludePlaceIds: string[] = []): any[] {
    const titleSet = new Set(excludeTitles.map((t) => t.toLowerCase().trim()));
    const placeIdSet = new Set(excludePlaceIds.filter(Boolean));
    const seen = new Set<string>();
    return suggestions.filter((s) => {
      try {
        if (!s.title || !s.description || !s.category) return false;
        const key = s.title.toLowerCase().trim();
        if (titleSet.has(key) || seen.has(key)) return false;
        if (s.placeId && placeIdSet.has(s.placeId)) return false;
        seen.add(key);
        return true;
      } catch {
        return false;
      }
    });
  }
  \<close>
  The callback changes \<^verbatim>\<open>seen\<close>: the model returns the new set with the verdict.
\<close>

definition titleSetOf :: "string list \<Rightarrow> string set" where
  "titleSetOf excludeTitles = set (map (\<lambda>t. trim (toLowerCase t)) excludeTitles)"

definition placeIdSetOf :: "string list \<Rightarrow> jsval set" where
  \<comment> \<open>\<^verbatim>\<open>filter(Boolean)\<close> drops the empty strings\<close>
  "placeIdSetOf excludePlaceIds = set (map JStr (filter (\<lambda>p. p \<noteq> []) excludePlaceIds))"

definition suggestionTry ::
  "string set \<Rightarrow> jsval set \<Rightarrow> string set \<Rightarrow> jsval \<Rightarrow> (bool \<times> string set) option" where
  \<comment> \<open>the body of the \<^verbatim>\<open>try\<close> block: the verdict and the new \<^verbatim>\<open>seen\<close>\<close>
  "suggestionTry titleSet placeIdSet seen s = do {
     title \<leftarrow> getField s ''title'';
     description \<leftarrow> getField s ''description'';
     category \<leftarrow> getField s ''category'';
     if \<not> truthy title \<or> \<not> truthy description \<or> \<not> truthy category then Some (False, seen)
     else do {
       key \<leftarrow> map_option (\<lambda>t. trim (toLowerCase t)) (strMethod title);
       if key \<in> titleSet \<or> key \<in> seen then Some (False, seen)
       else do {
         placeId \<leftarrow> getField s ''placeId'';
         if truthy placeId \<and> placeId \<in> placeIdSet then Some (False, seen)
         else Some (True, insert key seen)
       }
     }
   }"

definition suggestionFilter ::
  "string set \<Rightarrow> jsval set \<Rightarrow> string set \<Rightarrow> jsval \<Rightarrow> bool \<times> string set" where
  \<comment> \<open>the filter callback: \<^verbatim>\<open>catch { return false; }\<close>, with \<^verbatim>\<open>seen\<close> as it was\<close>
  "suggestionFilter titleSet placeIdSet seen s =
     (case suggestionTry titleSet placeIdSet seen s of None \<Rightarrow> (False, seen) | Some r \<Rightarrow> r)"

fun filterSeen :: "string set \<Rightarrow> jsval set \<Rightarrow> string set \<Rightarrow> jsval list \<Rightarrow> jsval list" where
  \<comment> \<open>\<^verbatim>\<open>suggestions.filter(callback)\<close>, the callbacks sharing \<^verbatim>\<open>seen\<close>\<close>
  "filterSeen titleSet placeIdSet seen [] = []"
| "filterSeen titleSet placeIdSet seen (s # ss) =
     (case suggestionFilter titleSet placeIdSet seen s of
        (keep, seen') \<Rightarrow>
          if keep then s # filterSeen titleSet placeIdSet seen' ss
          else filterSeen titleSet placeIdSet seen' ss)"

definition validateSuggestions :: "jsval list \<Rightarrow> string list \<Rightarrow> string list \<Rightarrow> jsval list" where
  "validateSuggestions suggestions excludeTitles excludePlaceIds =
     filterSeen (titleSetOf excludeTitles) (placeIdSetOf excludePlaceIds) {} suggestions"

text \<open>The title of an entry as the filter compares it: \<^verbatim>\<open>s.title.toLowerCase().trim()\<close>.\<close>

definition titleKey :: "jsval \<Rightarrow> string option" where
  "titleKey s =
     Option.bind (getField s ''title'')
       (\<lambda>t. map_option (\<lambda>t. trim (toLowerCase t)) (strMethod t))"

section \<open>Validating a fun fact\<close>

text \<open>
  \<^verbatim>\<open>
  const BANNED_FUNFACT_PHRASES = [
    "popular spot", "notable", "destination", "must-visit", "must visit", "perfect for",
    "great place", "visitors", "atmosphere", "a popular", "well-known", "well known",
    "famous for being", "worth a visit", "must-see", "must see",
  ];

  function isValidFunFact(fact: string): boolean {
    if (!fact || fact.length < 10) return false;
    const lower = fact.toLowerCase();
    for (const phrase of BANNED_FUNFACT_PHRASES) {
      if (lower.includes(phrase)) return false;
    }
    const words = fact.split(/\s+/).filter(Boolean);
    if (words.length < 12 || words.length > 25) return false;
    const sentences = fact.split(/[.!?]+/).filter((s) => s.trim().length > 0);
    if (sentences.length > 1) return false;
    const hasNumber = /\b\d{1,}/.test(fact);
    const hasYear = /\b(1[0-9]{3}|2[0-9]{3})\b/.test(fact);
    const hasMeasurement = /\b\d+[\s-]?(meter|metre|foot|feet|ton|kilo|mile|acre|year|
                             centur|inch|pound|hectare|square|cubic)/i.test(fact);
    const hasProperNoun = /\b[A-Z][a-z]{2,}\b/.test(fact.slice(fact.indexOf(" ") + 1));
    return hasNumber || hasYear || hasMeasurement || hasProperNoun;
  }
  \<close>
\<close>

definition BANNED_FUNFACT_PHRASES :: "string list" where
  "BANNED_FUNFACT_PHRASES =
     [''popular spot'', ''notable'', ''destination'', ''must-visit'', ''must visit'',
      ''perfect for'', ''great place'', ''visitors'', ''atmosphere'', ''a popular'',
      ''well-known'', ''well known'', ''famous for being'', ''worth a visit'',
      ''must-see'', ''must see'']"

definition wordsOf :: "string \<Rightarrow> string list" where
  \<comment> \<open>\<^verbatim>\<open>fact.split(/\s+/).filter(Boolean)\<close>\<close>
  "wordsOf factText = filter (\<lambda>w. w \<noteq> []) (splitRuns isWhiteSpace [] factText)"

definition isSentenceEnd :: "char \<Rightarrow> bool" where
  \<comment> \<open>the class \<^verbatim>\<open>[.!?]\<close>\<close>
  "isSentenceEnd c = (c = CHR ''.'' \<or> c = CHR ''!'' \<or> c = CHR ''?'')"

definition sentencesOf :: "string \<Rightarrow> string list" where
  \<comment> \<open>\<^verbatim>\<open>fact.split(/[.!?]+/).filter((s) => s.trim().length > 0)\<close>\<close>
  "sentencesOf factText = filter (\<lambda>s. length (trim s) > 0) (splitRuns isSentenceEnd [] factText)"

definition afterFirstSpace :: "string \<Rightarrow> string" where
  \<comment> \<open>\<^verbatim>\<open>fact.slice(fact.indexOf(" ") + 1)\<close>: without a space \<^verbatim>\<open>indexOf\<close> is -1 and the slice
      is the whole string\<close>
  "afterFirstSpace factText =
     (if CHR '' '' \<in> set factText then tl (dropWhile (\<lambda>c. c \<noteq> CHR '' '') factText) else factText)"

definition alts :: "regex list \<Rightarrow> regex" where
  \<comment> \<open>\<^verbatim>\<open>(r1|r2|...)\<close>\<close>
  "alts rs = foldr Alt rs Fail"

definition numberPattern :: regex where
  \<comment> \<open>\<^verbatim>\<open>/\b\d{1,}/\<close>\<close>
  "numberPattern = Seq WordBoundary (Plus (Sym CDigit))"

definition yearPattern :: regex where
  \<comment> \<open>\<^verbatim>\<open>/\b(1[0-9]{3}|2[0-9]{3})\b/\<close>\<close>
  "yearPattern =
     (let d = Sym (CRange CHR ''0'' CHR ''9'') in
      Seq WordBoundary
        (Seq (Alt (Seq (Sym (CChar CHR ''1'')) (Seq d (Seq d d)))
                  (Seq (Sym (CChar CHR ''2'')) (Seq d (Seq d d))))
             WordBoundary))"

definition measurementPattern :: regex where
  \<comment> \<open>\<^verbatim>\<open>/\b\d+[\s-]?(meter|metre|...|cubic)/i\<close>\<close>
  "measurementPattern =
     Seq WordBoundary
       (Seq (Plus (Sym CDigit))
          (Seq (Opt (Sym (CUnion CSpace (CChar CHR ''-''))))
             (alts (map litI
                [''meter'', ''metre'', ''foot'', ''feet'', ''ton'', ''kilo'', ''mile'',
                 ''acre'', ''year'', ''centur'', ''inch'', ''pound'', ''hectare'',
                 ''square'', ''cubic'']))))"

definition properNounPattern :: regex where
  \<comment> \<open>\<^verbatim>\<open>/\b[A-Z][a-z]{2,}\b/\<close>\<close>
  "properNounPattern =
     (let l = Sym (CRange CHR ''a'' CHR ''z'') in
      Seq WordBoundary
        (Seq (Sym (CRange CHR ''A'' CHR ''Z''))
           (Seq l (Seq l (Seq (Star l) WordBoundary)))))"

definition isValidFunFact :: "string \<Rightarrow> bool" where
  "isValidFunFact factText =
     (if factText = [] \<or> length factText < 10 then False
      else if list_ex (\<lambda>phrase. includesStr (toLowerCase factText) phrase) BANNED_FUNFACT_PHRASES
      then False
      else if length (wordsOf factText) < 12 \<or> length (wordsOf factText) > 25 then False
      else if length (sentencesOf factText) > 1 then False
      else
        (let hasNumber = test numberPattern factText;
             hasYear = test yearPattern factText;
             hasMeasurement = test measurementPattern factText;
             hasProperNoun = test properNounPattern (afterFirstSpace factText)
         in hasNumber \<or> hasYear \<or> hasMeasurement \<or> hasProperNoun))"

section \<open>Ranking the suggestion pool\<close>

text \<open>
  In the handler of \<^verbatim>\<open>/api/suggestions/generate\<close>:
  \<^verbatim>\<open>
      let ranked = pool.map((p) => {
        const distKm = hotelCoords ? haversineKm(..) : null;
        const popScore = (p.rating || 0) * Math.log10((p.userRatingCount || 0) + 1);
        return { ...p, distanceKm: distKm, popularityScore: popScore };
      });
      ...
      const popValues = ranked.map((p) => p.popularityScore).sort((a, b) => a - b);
      const getBucket = (score: number) => {
        const idx = popValues.findIndex((v) => v >= score);
        return Math.floor(((idx === -1 ? popValues.length : idx) / popValues.length) * 10);
      };

      ranked.sort((a, b) => {
        const bucketA = getBucket(a.popularityScore);
        const bucketB = getBucket(b.popularityScore);
        if (bucketB !== bucketA) return bucketB - bucketA;
        if (a.distanceKm !== null && b.distanceKm !== null) return a.distanceKm - b.distanceKm;
        return 0;
      });
  \<close>
  A ranked item is a \<^verbatim>\<open>GooglePlaceResult\<close> with the two computed fields. The record has
  the two fields the comparator reads; the fields of the place (title, lat, lng, category,
  address, placeId, rating, userRatingCount) are the extension of the record, and every
  function below takes any extension. Scores and distances are the values of the doubles;
  \<^verbatim>\<open>distanceKm\<close> is \<open>None\<close> for \<^verbatim>\<open>null\<close>. A number that can be NaN is an \<open>option\<close> with
  \<open>None\<close> for NaN: the bucket of an empty \<^verbatim>\<open>popValues\<close> is \<open>0 / 0\<close>.
\<close>

record rankedPlace =
  distanceKm :: "rat option"
  popularityScore :: rat

fun findIndexFrom :: "nat \<Rightarrow> ('a \<Rightarrow> bool) \<Rightarrow> 'a list \<Rightarrow> int" where
  "findIndexFrom i p [] = - 1"
| "findIndexFrom i p (x # xs) = (if p x then int i else findIndexFrom (i + 1) p xs)"

definition findIndex :: "('a \<Rightarrow> bool) \<Rightarrow> 'a list \<Rightarrow> int" where
  \<comment> \<open>\<^verbatim>\<open>xs.findIndex(p)\<close>\<close>
  "findIndex p xs = findIndexFrom 0 p xs"

definition popValuesOf :: "'a rankedPlace_scheme list \<Rightarrow> rat list" where
  \<comment> \<open>the scores in ascending order\<close>
  "popValuesOf ranked = sort (map popularityScore ranked)"

definition getBucket :: "rat list \<Rightarrow> rat \<Rightarrow> int option" where
  "getBucket popValues score =
     (let idx = findIndex (\<lambda>v. v \<ge> score) popValues in
      if popValues = [] then None
      else Some \<lfloor>(of_int (if idx = - 1 then int (length popValues) else idx)
                   / of_nat (length popValues)) * (10 :: rat)\<rfloor>)"

definition compareRanked ::
  "rat list \<Rightarrow> 'a rankedPlace_scheme \<Rightarrow> 'a rankedPlace_scheme \<Rightarrow> rat option" where
  \<comment> \<open>the comparator given to \<^verbatim>\<open>ranked.sort\<close>; a negative result puts a before b\<close>
  "compareRanked popValues a b =
     (case (getBucket popValues (popularityScore a), getBucket popValues (popularityScore b)) of
        (Some bucketA, Some bucketB) \<Rightarrow>
          if bucketB \<noteq> bucketA then Some (of_int (bucketB - bucketA))
          else if distanceKm a \<noteq> None \<and> distanceKm b \<noteq> None
          then Some (the (distanceKm a) - the (distanceKm b))
          else Some 0
      | _ \<Rightarrow> None)"

section \<open>Parsing the model's answer\<close>





definition tryCatch :: "'a option \<Rightarrow> 'a option \<Rightarrow> 'a option" where
  \<comment> \<open>\<^verbatim>\<open>try { return body } catch { return handler }\<close>\<close>
  "tryCatch body handler = (case body of Some v \<Rightarrow> Some v | None \<Rightarrow> handler)"




section \<open>The geocode cache\<close>

text \<open>
  \<^verbatim>\<open>
  const geocodeCache = new Map<string, { lat: number; lng: number } | null>();

  app.post("/api/geocode", async (req, res) => {
    try {
      const { address } = req.body;
      if (!address || typeof address !== "string") {
        return res.status(400).json({ error: "Address is required" });
      }
      const cacheKey = address.toLowerCase().trim();
      if (geocodeCache.has(cacheKey)) {
        const cached = geocodeCache.get(cacheKey);
        if (cached) return res.json(cached);
        return res.status(404).json({ error: "Location not found" });
      }
      const url = ..;
      const controller = new AbortController();
      const timeout = setTimeout(() => controller.abort(), 5000);
      const response = await fetch(url, { .., signal: controller.signal });
      clearTimeout(timeout);
      const results = await response.json();
      if (!Array.isArray(results) || results.length === 0) {
        geocodeCache.set(cacheKey, null);
        return res.status(404).json({ error: "Location not found" });
      }
      const coords = { lat: parseFloat(results[0].lat), lng: parseFloat(results[0].lon) };
      geocodeCache.set(cacheKey, coords);
      res.json(coords);
    } catch (error: any) {
      if (error.name === "AbortError") {
        return res.status(504).json({ error: "Geocoding timed out" });
      }
      console.error("Geocode error:", error);
      res.status(500).json({ error: "Geocoding failed" });
    }
  });
  \<close>
  The cache is the state. The handler runs in two parts: from the arrival of the request to
  the \<^verbatim>\<open>await fetch\<close> (\<open>geocodeArrive\<close>), and from the provider's answer to the response
  (\<open>geocodeComplete\<close>); other requests can run between the two. The provider's answer is
  an input of the second part. The handler reads no clock. \<^verbatim>\<open>parseFloat\<close> is a parameter,
  and the type \<open>'n\<close> of its results (the doubles, NaN included) with it.
\<close>

record 'n coords =
  coordLat :: 'n
  coordLng :: 'n

type_synonym 'n geocodeCache = "string \<rightharpoonup> 'n coords option"

datatype 'n geocodeResponse =
    Coords "'n coords"        \<comment> \<open>status 200 with the coordinates\<close>
  | Failure nat string        \<comment> \<open>another status with \<^verbatim>\<open>{ error: message }\<close>\<close>

datatype fetchOutcome =
    FetchAborted              \<comment> \<open>the fetch throws an \<^verbatim>\<open>AbortError\<close>: the 5 s timeout\<close>
  | FetchFailed               \<comment> \<open>the fetch or \<^verbatim>\<open>response.json()\<close> throws another error\<close>
  | FetchJson jsval           \<comment> \<open>\<^verbatim>\<open>results\<close>\<close>

datatype 'n arrival =
    Respond "'n geocodeResponse"   \<comment> \<open>answered without a provider query\<close>
  | Query string                   \<comment> \<open>a provider query is issued; the cache key\<close>

definition cachedResponse :: "'n coords option \<Rightarrow> 'n geocodeResponse" where
  \<comment> \<open>\<^verbatim>\<open>if (cached) return res.json(cached); return res.status(404)..\<close>: an object is truthy\<close>
  "cachedResponse cached =
     (case cached of Some c \<Rightarrow> Coords c | None \<Rightarrow> Failure 404 ''Location not found'')"

definition geocodeArrive :: "'n geocodeCache \<Rightarrow> jsval \<Rightarrow> 'n arrival" where
  "geocodeArrive cache body =
     (case getField body ''address'' of
        None \<Rightarrow> Respond (Failure 500 ''Geocoding failed'')
      | Some address \<Rightarrow>
          (case address of
             JStr a \<Rightarrow>
               if a = [] then Respond (Failure 400 ''Address is required'')
               else
                 (let cacheKey = trim (toLowerCase a) in
                  case cache cacheKey of
                    Some cached \<Rightarrow> Respond (cachedResponse cached)
                  | None \<Rightarrow> Query cacheKey)
           | _ \<Rightarrow> Respond (Failure 400 ''Address is required'')))"

definition geocodeComplete ::
  "(jsval \<Rightarrow> 'n) \<Rightarrow> 'n geocodeCache \<Rightarrow> string \<Rightarrow> fetchOutcome \<Rightarrow>
   'n geocodeResponse \<times> 'n geocodeCache" where
  "geocodeComplete parseFloat cache cacheKey outcome =
     (case outcome of
        FetchAborted \<Rightarrow> (Failure 504 ''Geocoding timed out'', cache)
      | FetchFailed \<Rightarrow> (Failure 500 ''Geocoding failed'', cache)
      | FetchJson results \<Rightarrow>
          (case results of
             JArr (first # rest) \<Rightarrow>
               (case getField first ''lat'' of
                  None \<Rightarrow> (Failure 500 ''Geocoding failed'', cache)
                | Some la \<Rightarrow>
                    (case getField first ''lon'' of
                       None \<Rightarrow> (Failure 500 ''Geocoding failed'', cache)
                     | Some lo \<Rightarrow>
                         (let c = \<lparr>coordLat = parseFloat la, coordLng = parseFloat lo\<rparr>
                          in (Coords c, cache(cacheKey \<mapsto> Some c)))))
           | _ \<Rightarrow> (Failure 404 ''Location not found'', cache(cacheKey \<mapsto> None))))"

definition geocode ::
  "(jsval \<Rightarrow> 'n) \<Rightarrow> 'n geocodeCache \<Rightarrow> jsval \<Rightarrow> fetchOutcome \<Rightarrow>
   'n geocodeResponse \<times> 'n geocodeCache \<times> bool" where
  \<comment> \<open>one request handled without another in between: the response, the cache after it,
      and whether a provider query was issued\<close>
  "geocode parseFloat cache body outcome =
     (case geocodeArrive cache body of
        Respond r \<Rightarrow> (r, cache, False)
      | Query cacheKey \<Rightarrow>
          (case geocodeComplete parseFloat cache cacheKey outcome of
             (r, cache') \<Rightarrow> (r, cache', True)))"




definition addressBody :: "string \<Rightarrow> jsval" where
  \<comment> \<open>the request body \<^verbatim>\<open>{ address: a }\<close>\<close>
  "addressBody a = JObj [(''address'', JStr a)]"



section \<open>Object literals\<close>

definition mkQuestion :: "string \<Rightarrow> string list \<Rightarrow> rat \<Rightarrow> string \<Rightarrow> jsval" where
  \<comment> \<open>the object literal \<^verbatim>\<open>{ question: .., options: [..], correctIndex: .., funFact: .. }\<close>\<close>
  "mkQuestion question options correctIndex funFact =
     JObj [(''question'', JStr question),
           (''options'', JArr (map JStr options)),
           (''correctIndex'', JNum correctIndex),
           (''funFact'', JStr funFact)]"

definition mkSuggestion :: "string \<Rightarrow> string \<Rightarrow> string \<Rightarrow> string \<Rightarrow> jsval" where
  \<comment> \<open>the object literal \<^verbatim>\<open>{ title: .., description: .., category: .., placeId: .. }\<close>\<close>
  "mkSuggestion title description category placeId =
     JObj [(''title'', JStr title),
           (''description'', JStr description),
           (''category'', JStr category),
           (''placeId'', JStr placeId)]"

definition plainHost :: host where
  \<comment> \<open>a host for evaluating examples; no example below reaches either function\<close>
  "plainHost = \<lparr>toStr = (\<lambda>v. []), other = (\<lambda>x key. JUndefined)\<rparr>"

definition halves :: random where
  \<comment> \<open>a random source for evaluating examples: every draw is 1/2\<close>
  "halves = (\<lambda>k. 1 / 2)"


section \<open>Curated fallback questions\<close>

text \<open>
  The table \<^verbatim>\<open>CURATED_QUESTIONS\<close> of the source, city by city in the order of the object
  literal, which is the order \<^verbatim>\<open>Object.entries\<close> gives.
\<close>

definition curated_new_york :: "jsval list" where
  "curated_new_york =
     [mkQuestion ''What year was the Statue of Liberty dedicated?''
        [''1876'', ''1886'', ''1896'', ''1906''] 1
        ''The statue was a gift from France to the United States.'',
      mkQuestion ''Which borough of New York is the most populous?''
        [''Manhattan'', ''Queens'', ''Brooklyn'', ''The Bronx''] 2
        ''Brooklyn would be the fourth-largest city in the US if it were independent.'',
      mkQuestion ''What was Times Square originally called?''
        [''Herald Square'', ''Longacre Square'', ''Madison Square'', ''Union Square''] 1
        ''It was renamed in 1904 after The New York Times moved its headquarters there.'',
      mkQuestion ''How long is the Brooklyn Bridge?''
        [''1,825 feet'', ''3,460 feet'', ''5,989 feet'', ''8,120 feet''] 2
        ''When completed in 1883, it was the longest suspension bridge in the world.'',
      mkQuestion ''Which park is the largest in Manhattan?''
        [''Central Park'', ''Riverside Park'', ''Inwood Hill Park'', ''Battery Park''] 0
        ''Central Park spans 843 acres and was the first public park in America.'',
      mkQuestion ''What style of pizza is New York famous for?''
        [''Deep dish'', ''Thin crust foldable slices'', ''Sicilian square'', ''Stuffed crust''] 1
        ''New York-style pizza is characterized by its large, foldable slices with a thin, crispy crust.'',
      mkQuestion ''Which museum has the Temple of Dendur?''
        [''MoMA'', ''The Met'', ''Guggenheim'', ''Whitney''] 1
        ''The temple is over 2,000 years old and was gifted by Egypt in 1965.'',
      mkQuestion ''How many islands make up New York City?''
        [''1'', ''3'', ''5'', ''Over 40''] 3
        ''NYC sits on over 40 islands, including Manhattan, Staten Island, and Roosevelt Island.'']"

definition curated_paris :: "jsval list" where
  "curated_paris =
     [mkQuestion ''In what year was the Eiffel Tower completed?''
        [''1879'', ''1889'', ''1899'', ''1909''] 1
        ''The tower was built for the 1889 World's Fair and was initially criticized by many Parisians.'',
      mkQuestion ''How many artworks does the Louvre house?''
        [''38,000'', ''100,000'', ''280,000'', ''Over 380,000''] 3
        ''It would take about 200 days to see every piece spending 30 seconds on each.'',
      mkQuestion ''What river runs through Paris?''
        [''Rhine'', ''Loire'', ''Seine'', ''Danube''] 2
        ''The Seine divides Paris into the Left Bank and Right Bank.'',
      mkQuestion ''When did construction of Notre-Dame begin?''
        [''963 AD'', ''1063 AD'', ''1163 AD'', ''1263 AD''] 2
        ''It took nearly 200 years to complete the cathedral.'',
      mkQuestion ''What keeps Sacre-Coeur white?''
        [''Annual painting'', ''Calcite in the stone'', ''Marble cladding'', ''Regular bleaching''] 1
        ''The stone exudes calcite when it rains, naturally whitening the basilica.'',
      mkQuestion ''Who created the Jardin du Luxembourg?''
        [''Louis XIV'', ''Napoleon'', ''Marie de Medici'', ''Baron Haussmann''] 2
        ''The gardens were inspired by the Boboli Gardens in Florence.'',
      mkQuestion ''Which arrondissement is the Latin Quarter in?''
        [''1st'', ''5th'', ''10th'', ''16th''] 1
        ''It is called the Latin Quarter because Latin was the language of learning there for centuries.'',
      mkQuestion ''How tall is the Eiffel Tower?''
        [''224 meters'', ''270 meters'', ''330 meters'', ''400 meters''] 2
        ''The tower grows about 15 cm taller in summer due to thermal expansion of the iron.'']"

definition curated_rome :: "jsval list" where
  "curated_rome =
     [mkQuestion ''How many spectators could the Colosseum hold?''
        [''25,000'', ''50,000'', ''80,000'', ''120,000''] 1
        ''The Colosseum could even be flooded for mock naval battles.'',
      mkQuestion ''Who painted the Sistine Chapel ceiling?''
        [''Leonardo da Vinci'', ''Raphael'', ''Michelangelo'', ''Caravaggio''] 2
        ''Michelangelo painted it while standing, not lying on his back as commonly believed.'',
      mkQuestion ''How much money is thrown into the Trevi Fountain daily?''
        [''About 300 euros'', ''About 1,000 euros'', ''About 3,000 euros'', ''About 10,000 euros''] 2
        ''The collected coins are donated to Caritas, a Catholic charity.'',
      mkQuestion ''What is the hole at the top of the Pantheon called?''
        [''Cupola'', ''Oculus'', ''Rotunda'', ''Atrium''] 1
        ''The oculus is the Pantheon's only source of natural light and lets in rain and sunlight.'',
      mkQuestion ''What does 'Trastevere' mean?''
        [''Old town'', ''Beyond the Tiber'', ''Holy ground'', ''Market place''] 1
        ''Trastevere was historically home to Rome's working class.'',
      mkQuestion ''How old is the Pantheon approximately?''
        [''1,000 years'', ''1,500 years'', ''2,000 years'', ''2,500 years''] 2
        ''It has the world's largest unreinforced concrete dome, a feat of ancient engineering.'',
      mkQuestion ''Which hill is NOT one of the seven hills of Rome?''
        [''Palatine'', ''Aventine'', ''Capitoline'', ''Vatican''] 3
        ''Vatican Hill is west of the Tiber and was not part of the original seven hills.'',
      mkQuestion ''What is a traditional Roman pasta dish?''
        [''Pesto Genovese'', ''Cacio e Pepe'', ''Bolognese'', ''Puttanesca''] 1
        ''Cacio e Pepe means 'cheese and pepper' and uses just three ingredients.'']"

definition curated_tokyo :: "jsval list" where
  "curated_tokyo =
     [mkQuestion ''How old is Senso-ji Temple?''
        [''About 500 years'', ''About 900 years'', ''About 1,400 years'', ''About 2,000 years''] 2
        ''Senso-ji was founded in 645 AD, making it Tokyo's oldest temple.'',
      mkQuestion ''How many trees are in Meiji Shrine's forest?''
        [''10,000'', ''50,000'', ''120,000'', ''300,000''] 2
        ''All 120,000 trees were donated from across Japan when the shrine was built.'',
      mkQuestion ''How many people cross Shibuya Crossing at once?''
        [''500'', ''1,000'', ''3,000'', ''5,000''] 2
        ''It is often called 'The Scramble' and is one of the most filmed locations in the world.'',
      mkQuestion ''What was the original name of Tokyo?''
        [''Osaka'', ''Kyoto'', ''Edo'', ''Nara''] 2
        ''Edo was renamed Tokyo, meaning 'Eastern Capital,' in 1868.'',
      mkQuestion ''Why is Tokyo Tower painted orange and white?''
        [''Cultural tradition'', ''Aviation safety'', ''Imperial decree'', ''Artistic choice''] 1
        ''The colors comply with international aviation safety regulations.'',
      mkQuestion ''When did Shinjuku Gyoen open to the public?''
        [''1889'', ''1919'', ''1949'', ''1969''] 2
        ''It was originally a private garden for the Imperial family.'',
      mkQuestion ''What is the busiest train station in the world?''
        [''Tokyo Station'', ''Shibuya Station'', ''Shinjuku Station'', ''Ikebukuro Station''] 2
        ''Shinjuku Station handles over 3.5 million passengers daily.'',
      mkQuestion ''Which traditional market moved to Toyosu?''
        [''Ameyoko'', ''Tsukiji inner market'', ''Nakamise'', ''Omotesando''] 1
        ''The outer market at Tsukiji still operates with over 400 shops.'']"

definition curated_chicago :: "jsval list" where
  "curated_chicago =
     [mkQuestion ''What is Cloud Gate commonly known as?''
        [''The Mirror'', ''The Bean'', ''The Drop'', ''The Orb''] 1
        ''Cloud Gate is made of 168 stainless steel plates welded together with no visible seams.'',
      mkQuestion ''When was Willis Tower the world's tallest building?''
        [''1963-1988'', ''1973-1998'', ''1983-2008'', ''1993-2010''] 1
        ''Willis Tower held the record for 25 years until the Petronas Towers surpassed it.'',
      mkQuestion ''What color is the Chicago River dyed on St. Patrick's Day?''
        [''Blue'', ''Orange'', ''Green'', ''Gold''] 2
        ''The tradition of dyeing the river green has been going on since 1962.'',
      mkQuestion ''What style of pizza is Chicago famous for?''
        [''Thin crust'', ''Deep dish'', ''Neapolitan'', ''Flatbread''] 1
        ''Deep dish pizza was invented at Pizzeria Uno in Chicago in 1943.'',
      mkQuestion ''When was Navy Pier originally built?''
        [''1896'', ''1906'', ''1916'', ''1926''] 2
        ''Navy Pier served as a Navy training center during World War II.'',
      mkQuestion ''What is Chicago's nickname?''
        [''The Big Apple'', ''The Windy City'', ''Motor City'', ''The Gateway''] 1
        ''The nickname may refer to boastful politicians rather than actual wind.'',
      mkQuestion ''Which famous architect designed many buildings in Chicago?''
        [''Frank Gehry'', ''Frank Lloyd Wright'', ''I.M. Pei'', ''Zaha Hadid''] 1
        ''Wright's Home and Studio in Oak Park is one of Chicago's most visited landmarks.'',
      mkQuestion ''What body of water borders Chicago?''
        [''Lake Erie'', ''Lake Huron'', ''Lake Michigan'', ''Lake Superior''] 2
        ''Chicago's lakefront trail stretches 18 miles along the shores of Lake Michigan.'']"

definition CURATED_QUESTIONS :: "(string \<times> jsval list) list" where
  "CURATED_QUESTIONS =
     [(''new york'', curated_new_york),
      (''paris'', curated_paris),
      (''rome'', curated_rome),
      (''tokyo'', curated_tokyo),
      (''chicago'', curated_chicago)]"

section \<open>Fallback questions and the error path of the quiz endpoint\<close>

text \<open>
  \<^verbatim>\<open>
  function getFallbackQuestions(city: string) {
    const key = city.toLowerCase().trim();
    for (const [name, questions] of Object.entries(CURATED_QUESTIONS)) {
      if (key.includes(name) || name.includes(key)) {
        return questions;
      }
    }
    return [
      { question: `What is a common way to explore ${city}?`, options: [..], correctIndex: 0,
        funFact: ".." },
      ... (five questions)
    ];
  }
  \<close>
\<close>

definition genericQuestions :: "string \<Rightarrow> jsval list" where
  "genericQuestions city =
     [mkQuestion (''What is a common way to explore '' @ city @ ''?'')
        [''Walking tour'', ''Submarine ride'', ''Private helicopter'', ''Hot air balloon''] 0
        ''Walking tours are one of the best ways to discover hidden gems in any city.'',
      mkQuestion (''What should travelers try when visiting '' @ city @ ''?'')
        [''Local cuisine'', ''Only chain restaurants'', ''Only hotel food'', ''Packaged snacks''] 0
        ''Trying local food is often the highlight of any trip.'',
      mkQuestion (''Which is the best way to learn about '' @ city @ '''s culture?'')
        [''Visit local museums'', ''Stay at the hotel'', ''Only read guidebooks'', ''Watch TV''] 0
        ''Museums offer fascinating insights into a city's culture and heritage.'',
      mkQuestion (''What makes '' @ city @ '' a popular travel destination?'')
        [''Rich history and culture'', ''Free hotels'', ''No other cities nearby'',
         ''Mandatory visits''] 0
        ''Cities with diverse cultural offerings tend to attract the most visitors.'',
      mkQuestion (''What is often found in '' @ city @ '''s historic districts?'')
        [''Traditional architecture'', ''Only modern buildings'', ''Empty lots'',
         ''Parking garages''] 0
        ''Historic districts preserve the architectural heritage that tells a city's story.'']"

definition getFallbackQuestions :: "string \<Rightarrow> jsval list" where
  "getFallbackQuestions city =
     (let key = trim (toLowerCase city) in
      case find (\<lambda>(name, questions). includesStr key name \<or> includesStr name key)
             CURATED_QUESTIONS of
        Some (name, questions) \<Rightarrow> questions
      | None \<Rightarrow> genericQuestions city)"

text \<open>
  The handler of \<^verbatim>\<open>POST /api/quiz/generate\<close>:
  \<^verbatim>\<open>
    try {
      const { city, .., cityPlaceId: providedPlaceId, .. } = req.body;
      if (!city || typeof city !== "string") {
        return res.status(400).json({ error: "City is required" });
      }
      ... (context fetch, cache, model call, validation, res.json)
    } catch (error: any) {
      console.error("Quiz generation error:", error);
      const city = req.body?.city || "the city";
      const reqCityPlaceId = req.body?.cityPlaceId;
      if (reqCityPlaceId) {
        res.status(503).json({
          error: "Quiz generation temporarily unavailable. Please try again.",
          questions: [], questionIds: [], poolExhausted: false, source: "error",
        });
      } else {
        res.json({
          questions: getFallbackQuestions(city).map(shuffleOptions),
          questionIds: [], poolExhausted: false, source: "fallback",
        });
      }
    }
  \<close>
  The part of the \<^verbatim>\<open>try\<close> block after the check of \<^verbatim>\<open>city\<close> calls the place provider and the
  language model; its outcome is an input of the model: the response it sends, or that it
  throws, in both cases with the number of the next random draw.
\<close>

record quizPayload =
  respError :: "string option"
  respQuestions :: "jsval list"
  respQuestionIds :: "string list"
  respPoolExhausted :: bool
  respSource :: string

datatype quizResponse =
    ErrorOnly nat string      \<comment> \<open>a status with the body \<^verbatim>\<open>{ error: message }\<close>\<close>
  | Payload nat quizPayload   \<comment> \<open>a status with a body of questions; the fields \<^verbatim>\<open>cityLabel\<close>
                                  and \<^verbatim>\<open>cityPlaceId\<close> of the success response are left out\<close>

datatype pipelineOutcome =
    Responds quizResponse nat
  | Throws nat

definition optionalField :: "jsval \<Rightarrow> string \<Rightarrow> jsval" where
  \<comment> \<open>\<^verbatim>\<open>v?.name\<close>\<close>
  "optionalField v name = (case getField v name of None \<Rightarrow> JUndefined | Some x \<Rightarrow> x)"

definition quizGenerateCatch ::
  "host \<Rightarrow> random \<Rightarrow> nat \<Rightarrow> jsval \<Rightarrow> (quizResponse \<times> nat) option" where
  \<comment> \<open>the \<^verbatim>\<open>catch\<close> block; \<open>None\<close> if it throws itself\<close>
  "quizGenerateCatch h rnd k body =
     (let city = (if truthy (optionalField body ''city'')
                  then optionalField body ''city'' else JStr ''the city'');
          reqCityPlaceId = optionalField body ''cityPlaceId''
      in if truthy reqCityPlaceId
         then Some (Payload 503
                      \<lparr>respError =
                         Some ''Quiz generation temporarily unavailable. Please try again.'',
                       respQuestions = [], respQuestionIds = [],
                       respPoolExhausted = False, respSource = ''error''\<rparr>, k)
         else do {
           cityText \<leftarrow> strMethod city;
           (questions, k') \<leftarrow> mapShuffle h rnd k (getFallbackQuestions cityText);
           Some (Payload 200
                   \<lparr>respError = None, respQuestions = questions, respQuestionIds = [],
                    respPoolExhausted = False, respSource = ''fallback''\<rparr>, k')
         })"

fun isString :: "jsval \<Rightarrow> bool" where
  \<comment> \<open>\<^verbatim>\<open>typeof v === "string"\<close>\<close>
  "isString (JStr s) = True"
| "isString v = False"

definition quizGenerate ::
  "host \<Rightarrow> random \<Rightarrow> nat \<Rightarrow> pipelineOutcome \<Rightarrow> jsval \<Rightarrow> (quizResponse \<times> nat) option" where
  "quizGenerate h rnd k pipeline body =
     (case getField body ''city'' of
        None \<Rightarrow> quizGenerateCatch h rnd k body
      | Some city \<Rightarrow>
          if \<not> truthy city \<or> \<not> isString city
          then Some (ErrorOnly 400 ''City is required'', k)
          else
            (case pipeline of
               Responds response k' \<Rightarrow> Some (response, k')
             | Throws k' \<Rightarrow> quizGenerateCatch h rnd k' body))"

definition hasFourOptions :: "jsval \<Rightarrow> bool" where
  \<comment> \<open>the question is an object whose \<^verbatim>\<open>options\<close> is an array of length 4\<close>
  "hasFourOptions q =
     (case getField q ''options'' of Some (JArr opts) \<Rightarrow> length opts = 4 | _ \<Rightarrow> False)"

definition quizRequest :: "string \<Rightarrow> jsval \<Rightarrow> jsval" where
  \<comment> \<open>the request body \<^verbatim>\<open>{ city: .., cityPlaceId: .. }\<close>\<close>
  "quizRequest city cityPlaceId = JObj [(''city'', JStr city), (''cityPlaceId'', cityPlaceId)]"

section \<open>Properties of the stable question id\<close>

lemma hashStep_mult: "hashStep h c = h * 31 + of_nat (charCode c)"
  by (simp add: hashStep_def push_bit_eq_mult)

lemma sint_word_of_int_wrapInt32: "sint (word_of_int x :: 32 word) = wrapInt32 x"
proof -
  have "sint (word_of_int x :: 32 word) = signed_take_bit 31 x"
    by (simp add: sint_sbintrunc')
  also have "\<dots> = take_bit (Suc 31) (x + 2 ^ 31) - 2 ^ 31"
    by (rule signed_take_bit_eq_take_bit_shift)
  also have "\<dots> = wrapInt32 x"
    by (simp add: wrapInt32_def take_bit_eq_mod)
  finally show ?thesis .
qed

lemma sint_hashStep: "sint (hashStep h c) = wrapInt32 (sint h * 31 + int (charCode c))"
proof -
  have "hashStep h c = word_of_int (sint h * 31 + int (charCode c))"
    by (simp add: hashStep_mult)
  then show ?thesis by (simp only: sint_word_of_int_wrapInt32)
qed

lemma sint_foldl_hashStep:
  "sint (foldl hashStep h raw) =
   foldl (\<lambda>h c. wrapInt32 (h * 31 + int (charCode c))) (sint h) raw"
  by (induction raw arbitrary: h) (simp_all add: sint_hashStep)

lemma sint_hashLoop: "sint (hashLoop raw) = rollingHash31 raw"
  by (simp add: hashLoop_def rollingHash31_def sint_foldl_hashStep)

lemma digitValue36_digit36_all:
  "list_all (\<lambda>d. digitValue36 (digit36 d) = Some d) [0..<36]"
  by code_simp

lemma digitValue36_digit36: "d < 36 \<Longrightarrow> digitValue36 (digit36 d) = Some d"
  using digitValue36_digit36_all by (simp add: list_all_iff)

lemma parseBase36_toString36_append:
  "parseBase36 acc (toString36 n @ rest) =
   parseBase36 (acc * 36 ^ length (toString36 n) + n) rest"
proof (induction n arbitrary: acc rest rule: toString36.induct)
  case (1 n)
  show ?case
  proof (cases "n < 36")
    case True
    then show ?thesis
      by (simp add: toString36.simps [of n] digitValue36_digit36)
  next
    case False
    have m: "n mod 36 < 36" by simp
    from False 1 [of acc "digit36 (n mod 36) # rest"] show ?thesis
      apply (subst toString36.simps)
      apply (subst (2) toString36.simps)
      by (simp add: digitValue36_digit36 [OF m] algebra_simps)
  qed
qed

lemma toString36_small: "n < 36 \<Longrightarrow> toString36 n = [digit36 n]"
  by (simp add: toString36.simps)

lemma toString36_large:
  "\<not> n < 36 \<Longrightarrow> toString36 n = toString36 (n div 36) @ [digit36 (n mod 36)]"
  by (subst toString36.simps) simp

lemma parseBase36_toString36: "parseBase36 0 (toString36 n) = Some n"
  using parseBase36_toString36_append [of 0 n "[]"] by simp

text \<open>
  Claim C5. \<^verbatim>\<open>generateQuestionId\<close> is a function of the characters of its three
  arguments only: equal triples give equal ids (the model has no other input: no clock,
  no process state, no random source). Its hash is the signed 32-bit rolling hash
  \<open>h = h * 31 + charCode\<close> over \<^verbatim>\<open>cityPlaceId|difficulty|questionText\<close>, and its output is the
  base-36 numeral of the non-negative integer \<open>\<bar>h\<bar>\<close>: reading the output back in base 36
  gives that integer.
\<close>

theorem generateQuestionId_deterministic_hash:
  "(cityPlaceId = cityPlaceId' \<and> difficulty = difficulty' \<and> questionText = questionText' \<longrightarrow>
      generateQuestionId cityPlaceId difficulty questionText =
      generateQuestionId cityPlaceId' difficulty' questionText')
   \<and> generateQuestionId cityPlaceId difficulty questionText =
       toString36 (nat \<bar>rollingHash31 (cityPlaceId @ ''|'' @ difficulty @ ''|'' @ questionText)\<bar>)
   \<and> parseBase36 0 (generateQuestionId cityPlaceId difficulty questionText) =
       Some (nat \<bar>rollingHash31 (cityPlaceId @ ''|'' @ difficulty @ ''|'' @ questionText)\<bar>)"
  by (simp add: generateQuestionId_def Let_def sint_hashLoop parseBase36_toString36)

theorem generateQuestionId_deterministic_hash_witness:
  "generateQuestionId ''abc'' ''standard'' ''What is it?'' =
     generateQuestionId ''abc'' ''standard'' ''What is it?''
   \<and> generateQuestionId ''abc'' ''standard'' ''What is it?'' = ''x5ynrp''
   \<and> parseBase36 0 (generateQuestionId ''abc'' ''standard'' ''What is it?'') = Some 2005398997"
proof -
  have h: "rollingHash31 ''abc|standard|What is it?'' = 2005398997"
    by code_simp
  have t: "toString36 2005398997 = ''x5ynrp''"
    by (simp add: toString36_small toString36_large digit36_def)
  note inst = generateQuestionId_deterministic_hash
    [of "''abc''" "''abc''" "''standard''" "''standard''" "''What is it?''" "''What is it?''"]
  have e: "generateQuestionId ''abc'' ''standard'' ''What is it?'' = ''x5ynrp''"
    using inst [THEN conjunct2, THEN conjunct1] by (simp add: h t)
  have p: "parseBase36 0 (generateQuestionId ''abc'' ''standard'' ''What is it?'') =
      Some 2005398997"
    using inst [THEN conjunct2, THEN conjunct2] by (simp add: h)
  from e p show ?thesis
    by blast
qed

section \<open>The fun fact validator on the specification's examples\<close>

lemma popular_spot_rejected: "isValidFunFact ''A popular spot for tourists.'' = False"
  by code_simp

lemma built_in_1887_words:
  "wordsOf ''Built in 1887, the tower weighs 10,100 tons.'' =
     [''Built'', ''in'', ''1887,'', ''the'', ''tower'', ''weighs'', ''10,100'', ''tons.'']"
  by code_simp

lemma built_in_1887_not_banned:
  "\<not> list_ex (includesStr (toLowerCase ''Built in 1887, the tower weighs 10,100 tons.''))
       BANNED_FUNFACT_PHRASES"
  by code_simp

lemma built_in_1887_rejected:
  "isValidFunFact ''Built in 1887, the tower weighs 10,100 tons.'' = False"
  by code_simp

lemma longer_fact_accepted:
  "isValidFunFact
     ''Built in 1887, the iron tower weighs 10,100 tons and rises 330 meters high.'' = True"
  by code_simp

text \<open>
  Claim C1, as stated, fails: the validator rejects the first example and rejects the second
  one too.
\<close>

theorem isValidFunFact_examples_counterexample:
  "\<not> (isValidFunFact ''A popular spot for tourists.'' = False
      \<and> isValidFunFact ''Built in 1887, the tower weighs 10,100 tons.'' = True)"
  by (simp add: built_in_1887_rejected)

text \<open>
  Claim C1, amended. \<^verbatim>\<open>isValidFunFact\<close> returns false for \<^verbatim>\<open>"A popular spot for tourists."\<close>.
  It returns false for \<^verbatim>\<open>"Built in 1887, the tower weighs 10,100 tons."\<close> as well: the
  sentence holds no banned phrase, but it has 8 words, fewer than the 12 the word-count rule
  asks for. A sentence with the same signals and 14 words is accepted.
\<close>

theorem isValidFunFact_examples:
  "isValidFunFact ''A popular spot for tourists.'' = False
   \<and> isValidFunFact ''Built in 1887, the tower weighs 10,100 tons.'' = False
   \<and> \<not> list_ex (includesStr (toLowerCase ''Built in 1887, the tower weighs 10,100 tons.''))
          BANNED_FUNFACT_PHRASES
   \<and> length (wordsOf ''Built in 1887, the tower weighs 10,100 tons.'') = 8
   \<and> isValidFunFact
        ''Built in 1887, the iron tower weighs 10,100 tons and rises 330 meters high.'' = True"
  by (simp add: popular_spot_rejected built_in_1887_rejected built_in_1887_words
        built_in_1887_not_banned longer_fact_accepted)

section \<open>Properties of the distribution guard\<close>

lemma every_all_true:
  "\<forall>x\<in>set xs. p x = Some True \<Longrightarrow> every p xs = Some True"
  by (induction xs) simp_all

lemma every_some_false:
  "\<forall>x\<in>set xs. p x \<noteq> None \<Longrightarrow> \<exists>x\<in>set xs. p x = Some False \<Longrightarrow> every p xs = Some False"
  by (induction xs) (auto split: option.splits)

lemma correctIndexIsZero_True:
  "getField q ''correctIndex'' = Some (JNum 0) \<Longrightarrow> correctIndexIsZero q = Some True"
  by (simp add: correctIndexIsZero_def)

lemma getField_defined: "q \<noteq> JNull \<Longrightarrow> q \<noteq> JUndefined \<Longrightarrow> getField q name \<noteq> None"
  by (cases q) simp_all

lemma correctIndexIsZero_defined:
  "q \<noteq> JNull \<Longrightarrow> q \<noteq> JUndefined \<Longrightarrow> correctIndexIsZero q \<noteq> None"
  by (simp add: correctIndexIsZero_def getField_defined)

lemma correctIndexIsZero_False:
  "q \<noteq> JNull \<Longrightarrow> q \<noteq> JUndefined \<Longrightarrow> getField q ''correctIndex'' \<noteq> Some (JNum 0) \<Longrightarrow> correctIndexIsZero q = Some False"
  using getField_defined [of q "''correctIndex''"]
  by (auto simp: correctIndexIsZero_def)

text \<open>
  Claim C4. \<^verbatim>\<open>checkAnswerDistribution\<close> returns true for a batch of fewer than 4 questions;
  it returns false for a batch of at least 4 questions that all have \<^verbatim>\<open>correctIndex\<close> 0, and
  the handler then shuffles every question of the batch; it returns true for a batch of
  questions (values whose properties can be read: not \<^verbatim>\<open>null\<close>, not \<^verbatim>\<open>undefined\<close>) of which
  at least one has a \<^verbatim>\<open>correctIndex\<close> other than 0; and whenever it returns true the handler
  leaves the batch as it is and draws no random number.
\<close>

theorem checkAnswerDistribution_guard:
  "(length questions < 4 \<longrightarrow> checkAnswerDistribution questions = Some True)
   \<and> (4 \<le> length questions \<and> (\<forall>q\<in>set questions. getField q ''correctIndex'' = Some (JNum 0)) \<longrightarrow>
        checkAnswerDistribution questions = Some False
        \<and> distributionGuard h rnd k questions = mapShuffle h rnd k questions)
   \<and> ((\<forall>q\<in>set questions. q \<noteq> JNull \<and> q \<noteq> JUndefined)
        \<and> (\<exists>q\<in>set questions. getField q ''correctIndex'' \<noteq> Some (JNum 0)) \<longrightarrow>
        checkAnswerDistribution questions = Some True)
   \<and> (checkAnswerDistribution questions = Some True \<longrightarrow>
        distributionGuard h rnd k questions = Some (questions, k))"
proof (intro conjI impI)
  assume "length questions < 4"
  then show "checkAnswerDistribution questions = Some True"
    by (simp add: checkAnswerDistribution_def)
next
  assume a: "4 \<le> length questions \<and> (\<forall>q\<in>set questions. getField q ''correctIndex'' = Some (JNum 0))"
  then have "every correctIndexIsZero questions = Some True"
    by (simp add: every_all_true correctIndexIsZero_True)
  with a show c: "checkAnswerDistribution questions = Some False"
    by (simp add: checkAnswerDistribution_def)
  then show "distributionGuard h rnd k questions = mapShuffle h rnd k questions"
    by (simp add: distributionGuard_def)
next
  assume a: "(\<forall>q\<in>set questions. q \<noteq> JNull \<and> q \<noteq> JUndefined)
        \<and> (\<exists>q\<in>set questions. getField q ''correctIndex'' \<noteq> Some (JNum 0))"
  have "every correctIndexIsZero questions = Some False"
  proof (rule every_some_false)
    show "\<forall>x\<in>set questions. correctIndexIsZero x \<noteq> None"
      using a by (simp add: correctIndexIsZero_defined)
    from a obtain q where "q \<in> set questions" "getField q ''correctIndex'' \<noteq> Some (JNum 0)"
      by blast
    moreover from this a have "correctIndexIsZero q = Some False"
      by (simp add: correctIndexIsZero_False)
    ultimately show "\<exists>x\<in>set questions. correctIndexIsZero x = Some False"
      by blast
  qed
  then show "checkAnswerDistribution questions = Some True"
    by (simp add: checkAnswerDistribution_def)
next
  assume "checkAnswerDistribution questions = Some True"
  then show "distributionGuard h rnd k questions = Some (questions, k)"
    by (simp add: distributionGuard_def)
qed


theorem checkAnswerDistribution_guard_witness:
  "checkAnswerDistribution (replicate 3 (mkQuestion ''Q'' [''a'', ''b'', ''c'', ''d''] 0 ''A fact.'')) = Some True
   \<and> checkAnswerDistribution (replicate 4 (mkQuestion ''Q'' [''a'', ''b'', ''c'', ''d''] 0 ''A fact.'')) = Some False
   \<and> distributionGuard plainHost halves 0 (replicate 4 (mkQuestion ''Q'' [''a'', ''b'', ''c'', ''d''] 0 ''A fact.''))
       = mapShuffle plainHost halves 0 (replicate 4 (mkQuestion ''Q'' [''a'', ''b'', ''c'', ''d''] 0 ''A fact.''))
   \<and> checkAnswerDistribution
        (mkQuestion ''Q'' [''a'', ''b'', ''c'', ''d''] 2 ''A fact.''
          # replicate 3 (mkQuestion ''Q'' [''a'', ''b'', ''c'', ''d''] 0 ''A fact.'')) = Some True
   \<and> distributionGuard plainHost halves 0
        (mkQuestion ''Q'' [''a'', ''b'', ''c'', ''d''] 2 ''A fact.''
          # replicate 3 (mkQuestion ''Q'' [''a'', ''b'', ''c'', ''d''] 0 ''A fact.''))
       = Some (mkQuestion ''Q'' [''a'', ''b'', ''c'', ''d''] 2 ''A fact.''
          # replicate 3 (mkQuestion ''Q'' [''a'', ''b'', ''c'', ''d''] 0 ''A fact.''), 0)"
proof -
  let ?z = "mkQuestion ''Q'' [''a'', ''b'', ''c'', ''d''] 0 ''A fact.''"
  let ?t = "mkQuestion ''Q'' [''a'', ''b'', ''c'', ''d''] 2 ''A fact.''"
  have a: "checkAnswerDistribution (replicate 3 ?z) = Some True"
    using checkAnswerDistribution_guard [of "replicate 3 ?z" plainHost halves 0] by simp
  have b: "checkAnswerDistribution (replicate 4 ?z) = Some False
      \<and> distributionGuard plainHost halves 0 (replicate 4 ?z) = mapShuffle plainHost halves 0 (replicate 4 ?z)"
    using checkAnswerDistribution_guard [of "replicate 4 ?z" plainHost halves 0]
    by (simp add: mkQuestion_def)
  have c: "checkAnswerDistribution (?t # replicate 3 ?z) = Some True"
    using checkAnswerDistribution_guard [of "?t # replicate 3 ?z" plainHost halves 0]
    by (simp add: mkQuestion_def)
  have d: "distributionGuard plainHost halves 0 (?t # replicate 3 ?z) = Some (?t # replicate 3 ?z, 0)"
    using checkAnswerDistribution_guard [of "?t # replicate 3 ?z" plainHost halves 0] c
    by simp
  from a b c d show ?thesis by simp
qed

section \<open>Properties of the suggestion validator\<close>

lemma strMethod_Some: "strMethod v = Some s \<longleftrightarrow> v = JStr s"
  by (cases v) auto

lemma suggestionFilter_keep:
  assumes "suggestionFilter T P seen s = (True, seen')"
  shows "\<exists>t d c. getField s ''title'' = Some (JStr t) \<and> t \<noteq> []
           \<and> getField s ''description'' = Some d \<and> truthy d
           \<and> getField s ''category'' = Some c \<and> truthy c
           \<and> trim (toLowerCase t) \<notin> T \<and> trim (toLowerCase t) \<notin> seen
           \<and> seen' = insert (trim (toLowerCase t)) seen
           \<and> (\<forall>p. getField s ''placeId'' = Some p \<longrightarrow> \<not> (truthy p \<and> p \<in> P))"
  using assms
  by (auto simp: suggestionFilter_def suggestionTry_def strMethod_Some
           split: option.splits Option.bind_splits if_splits)

lemma suggestionFilter_drop:
  "suggestionFilter T P seen s = (False, seen') \<Longrightarrow> seen' = seen"
  by (auto simp: suggestionFilter_def suggestionTry_def
           split: option.splits Option.bind_splits if_splits)

lemma titleKey_JStr: "getField s ''title'' = Some (JStr t) \<Longrightarrow> titleKey s = Some (trim (toLowerCase t))"
  by (simp add: titleKey_def)

lemma filterSeen_members:
  "s \<in> set (filterSeen T P seen ss) \<Longrightarrow>
   \<exists>t d c. getField s ''title'' = Some (JStr t) \<and> t \<noteq> []
      \<and> getField s ''description'' = Some d \<and> truthy d
      \<and> getField s ''category'' = Some c \<and> truthy c
      \<and> trim (toLowerCase t) \<notin> T \<and> trim (toLowerCase t) \<notin> seen
      \<and> (\<forall>p. getField s ''placeId'' = Some p \<longrightarrow> \<not> (truthy p \<and> p \<in> P))"
proof (induction ss arbitrary: seen)
  case Nil
  then show ?case by simp
next
  case (Cons x xs)
  obtain keep seen' where f: "suggestionFilter T P seen x = (keep, seen')"
    by (cases "suggestionFilter T P seen x")
  show ?case
  proof (cases keep)
    case True
    from f True have f': "suggestionFilter T P seen x = (True, seen')"
      by simp
    from suggestionFilter_keep [OF f'] obtain t d c where x:
      "getField x ''title'' = Some (JStr t)" "t \<noteq> []"
      "getField x ''description'' = Some d" "truthy d"
      "getField x ''category'' = Some c" "truthy c"
      "trim (toLowerCase t) \<notin> T" "trim (toLowerCase t) \<notin> seen"
      "seen' = insert (trim (toLowerCase t)) seen"
      "\<forall>p. getField x ''placeId'' = Some p \<longrightarrow> \<not> (truthy p \<and> p \<in> P)"
      by blast
    from Cons.prems f True have "s = x \<or> s \<in> set (filterSeen T P seen' xs)"
      by simp
    then show ?thesis
    proof
      assume "s = x"
      with x show ?thesis by blast
    next
      assume "s \<in> set (filterSeen T P seen' xs)"
      from Cons.IH [OF this] x(9) show ?thesis by auto
    qed
  next
    case False
    with f have "seen' = seen" by (simp add: suggestionFilter_drop)
    with Cons.prems f False have "s \<in> set (filterSeen T P seen xs)" by simp
    from Cons.IH [OF this] show ?thesis .
  qed
qed

lemma filterSeen_distinct: "distinct (map titleKey (filterSeen T P seen ss))"
proof (induction ss arbitrary: seen)
  case Nil
  show ?case by simp
next
  case (Cons x xs)
  obtain keep seen' where f: "suggestionFilter T P seen x = (keep, seen')"
    by (cases "suggestionFilter T P seen x")
  show ?case
  proof (cases keep)
    case True
    from f True have f': "suggestionFilter T P seen x = (True, seen')"
      by simp
    from suggestionFilter_keep [OF f'] obtain t where x:
      "getField x ''title'' = Some (JStr t)"
      "seen' = insert (trim (toLowerCase t)) seen"
      by blast
    have "titleKey x \<notin> titleKey ` set (filterSeen T P seen' xs)"
    proof
      assume "titleKey x \<in> titleKey ` set (filterSeen T P seen' xs)"
      then obtain s where s: "s \<in> set (filterSeen T P seen' xs)" "titleKey s = titleKey x"
        by auto
      from filterSeen_members [OF s(1)] obtain u where
        u: "getField s ''title'' = Some (JStr u)" "trim (toLowerCase u) \<notin> seen'"
        by blast
      from s(2) u(1) x(1) have "trim (toLowerCase u) = trim (toLowerCase t)"
        by (simp add: titleKey_JStr)
      with u(2) x(2) show False by simp
    qed
    with Cons.IH [of seen'] f True show ?thesis by simp
  next
    case False
    with Cons.IH [of seen'] f show ?thesis by simp
  qed
qed

lemma placeIdSetOf_truthy: "p \<in> placeIdSetOf P \<Longrightarrow> truthy p"
  by (auto simp: placeIdSetOf_def)

text \<open>
  Claim C9. In the list that \<^verbatim>\<open>validateSuggestions\<close> returns, no two entries have the same
  title after lower-casing and trimming; every entry has a title that is a non-empty string,
  and a description and a category that are truthy (for a string: non-empty); no entry's
  normalised title is in the set of excluded titles, and no entry's \<^verbatim>\<open>placeId\<close> is in the set
  of excluded place ids.
\<close>

theorem validateSuggestions_dedup:
  "distinct (map titleKey (validateSuggestions suggestions excludeTitles excludePlaceIds))
   \<and> (\<forall>s\<in>set (validateSuggestions suggestions excludeTitles excludePlaceIds).
         \<exists>t d c. getField s ''title'' = Some (JStr t) \<and> t \<noteq> []
           \<and> getField s ''description'' = Some d \<and> truthy d
           \<and> getField s ''category'' = Some c \<and> truthy c
           \<and> titleKey s = Some (trim (toLowerCase t))
           \<and> trim (toLowerCase t) \<notin> titleSetOf excludeTitles
           \<and> (\<forall>p. getField s ''placeId'' = Some p \<longrightarrow> p \<notin> placeIdSetOf excludePlaceIds))"
proof (intro conjI ballI)
  show "distinct (map titleKey (validateSuggestions suggestions excludeTitles excludePlaceIds))"
    by (simp add: validateSuggestions_def filterSeen_distinct)
next
  fix s
  assume "s \<in> set (validateSuggestions suggestions excludeTitles excludePlaceIds)"
  then have "s \<in> set (filterSeen (titleSetOf excludeTitles) (placeIdSetOf excludePlaceIds) {} suggestions)"
    by (simp add: validateSuggestions_def)
  from filterSeen_members [OF this] obtain t d c where x:
      "getField s ''title'' = Some (JStr t)" "t \<noteq> []"
      "getField s ''description'' = Some d" "truthy d"
      "getField s ''category'' = Some c" "truthy c"
      "trim (toLowerCase t) \<notin> titleSetOf excludeTitles"
      "\<forall>p. getField s ''placeId'' = Some p \<longrightarrow> \<not> (truthy p \<and> p \<in> placeIdSetOf excludePlaceIds)"
    by blast
  from x(8) have "\<forall>p. getField s ''placeId'' = Some p \<longrightarrow> p \<notin> placeIdSetOf excludePlaceIds"
    using placeIdSetOf_truthy by blast
  with x titleKey_JStr [OF x(1)]
  show "\<exists>t d c. getField s ''title'' = Some (JStr t) \<and> t \<noteq> []
           \<and> getField s ''description'' = Some d \<and> truthy d
           \<and> getField s ''category'' = Some c \<and> truthy c
           \<and> titleKey s = Some (trim (toLowerCase t))
           \<and> trim (toLowerCase t) \<notin> titleSetOf excludeTitles
           \<and> (\<forall>p. getField s ''placeId'' = Some p \<longrightarrow> p \<notin> placeIdSetOf excludePlaceIds)"
    by blast
qed


theorem validateSuggestions_dedup_witness:
  "validateSuggestions
     [mkSuggestion ''Eiffel Tower'' ''Iron tower'' ''Landmark'' ''p1'',
      mkSuggestion '' eiffel tower '' ''Copy'' ''Landmark'' ''p5'',
      JNull,
      mkSuggestion ''Louvre'' ''Museum'' ''Culture'' ''p2'',
      mkSuggestion ''Pantheon'' ''Temple'' ''Landmark'' ''p9'',
      mkSuggestion ''Notre-Dame'' ''Cathedral'' ''Landmark'' ''p3'']
     [''LOUVRE ''] ['''', ''p9'']
   = [mkSuggestion ''Eiffel Tower'' ''Iron tower'' ''Landmark'' ''p1'',
      mkSuggestion ''Notre-Dame'' ''Cathedral'' ''Landmark'' ''p3'']
   \<and> distinct (map titleKey
        [mkSuggestion ''Eiffel Tower'' ''Iron tower'' ''Landmark'' ''p1'',
         mkSuggestion ''Notre-Dame'' ''Cathedral'' ''Landmark'' ''p3''])
   \<and> titleKey (mkSuggestion ''Eiffel Tower'' ''Iron tower'' ''Landmark'' ''p1'') =
        Some ''eiffel tower''
   \<and> ''eiffel tower'' \<notin> titleSetOf [''LOUVRE '']
   \<and> JStr ''p1'' \<notin> placeIdSetOf ['''', ''p9'']
   \<and> titleKey (mkSuggestion ''Notre-Dame'' ''Cathedral'' ''Landmark'' ''p3'') =
        Some ''notre-dame''
   \<and> ''notre-dame'' \<notin> titleSetOf [''LOUVRE '']
   \<and> JStr ''p3'' \<notin> placeIdSetOf ['''', ''p9'']"
proof -
  let ?in = "[mkSuggestion ''Eiffel Tower'' ''Iron tower'' ''Landmark'' ''p1'',
      mkSuggestion '' eiffel tower '' ''Copy'' ''Landmark'' ''p5'',
      JNull,
      mkSuggestion ''Louvre'' ''Museum'' ''Culture'' ''p2'',
      mkSuggestion ''Pantheon'' ''Temple'' ''Landmark'' ''p9'',
      mkSuggestion ''Notre-Dame'' ''Cathedral'' ''Landmark'' ''p3'']"
  have e: "validateSuggestions ?in [''LOUVRE ''] ['''', ''p9'']
     = [mkSuggestion ''Eiffel Tower'' ''Iron tower'' ''Landmark'' ''p1'',
        mkSuggestion ''Notre-Dame'' ''Cathedral'' ''Landmark'' ''p3'']"
    by code_simp
  have k1: "trim (toLowerCase ''Eiffel Tower'') = ''eiffel tower''"
    by code_simp
  have k2: "trim (toLowerCase ''Notre-Dame'') = ''notre-dame''"
    by code_simp
  have g: "getField (mkSuggestion t d c p) ''title'' = Some (JStr t)"
          "getField (mkSuggestion t d c p) ''placeId'' = Some (JStr p)" for t d c p
    by (simp_all add: mkSuggestion_def)
  note inst = validateSuggestions_dedup [of ?in "[''LOUVRE '']" "['''', ''p9'']", unfolded e]
  from inst have d: "distinct (map titleKey
        [mkSuggestion ''Eiffel Tower'' ''Iron tower'' ''Landmark'' ''p1'',
         mkSuggestion ''Notre-Dame'' ''Cathedral'' ''Landmark'' ''p3''])"
    by blast
  from inst have a1:
    "titleKey (mkSuggestion ''Eiffel Tower'' ''Iron tower'' ''Landmark'' ''p1'') =
        Some ''eiffel tower''
      \<and> ''eiffel tower'' \<notin> titleSetOf [''LOUVRE '']
      \<and> JStr ''p1'' \<notin> placeIdSetOf ['''', ''p9'']"
    by (auto simp: g k1)
  from inst have a2:
    "titleKey (mkSuggestion ''Notre-Dame'' ''Cathedral'' ''Landmark'' ''p3'') =
        Some ''notre-dame''
      \<and> ''notre-dame'' \<notin> titleSetOf [''LOUVRE '']
      \<and> JStr ''p3'' \<notin> placeIdSetOf ['''', ''p9'']"
    by (auto simp: g k2)
  from e d a1 a2 show ?thesis
    by blast
qed

section \<open>Properties of the shuffle\<close>

lemma randomIndex_le: "0 \<le> r \<Longrightarrow> r < 1 \<Longrightarrow> randomIndex r i \<le> i"
proof -
  assume r: "0 \<le> r" "r < 1"
  have "r * of_nat (i + 1) < of_nat (i + 1)"
    using r by (simp add: mult_less_cancel_right1)
  then have "\<lfloor>r * of_nat (i + 1)\<rfloor> < int (i + 1)"
    by (simp add: floor_less_iff)
  then show ?thesis
    by (simp add: randomIndex_def)
qed

lemma length_swap: "length (swap i j xs) = length xs"
  by (simp add: swap_def Let_def)

lemma mset_swap_indices:
  "i < length xs \<Longrightarrow> j < length xs \<Longrightarrow> mset (swap i j xs) = mset xs"
  by (simp add: swap_def Let_def mset_swap)

lemma shuffleLoop_mset:
  "randomOk rnd \<Longrightarrow> n < length xs \<Longrightarrow> mset (shuffleLoop rnd k n xs) = mset xs"
proof (induction n arbitrary: k xs)
  case 0
  show ?case by simp
next
  case (Suc n)
  let ?j = "randomIndex (rnd k) (Suc n)"
  from Suc.prems(1) have "?j \<le> Suc n"
    by (simp add: randomOk_def randomIndex_le)
  with Suc.prems(2) have j: "?j < length xs" by simp
  have "mset (shuffleLoop rnd (k + 1) n (swap (Suc n) ?j xs)) = mset (swap (Suc n) ?j xs)"
    using Suc.prems by (intro Suc.IH) (simp_all add: length_swap)
  also have "\<dots> = mset xs"
    using Suc.prems(2) j by (rule mset_swap_indices)
  finally show ?case by simp
qed

lemma isInteger_of_nat: "isInteger (of_nat i)"
  by (simp add: isInteger_def)

lemma getIndex_array_nat:
  "i < length xs \<Longrightarrow> getIndex h (JArr xs) (JNum (of_nat i)) = Some (xs ! i)"
  by (simp add: getIndex_def isInteger_of_nat)

lemma mapM_getIndex:
  "\<forall>i\<in>set is. i < length xs \<Longrightarrow>
   mapM (\<lambda>i. getIndex h (JArr xs) (JNum (of_nat i))) is = Some (map (\<lambda>i. xs ! i) is)"
  by (induction "is") (simp_all add: getIndex_array_nat)

lemma mset_map_nth_perm:
  assumes "mset is = mset [0..<length xs]"
  shows "mset (map (\<lambda>i. xs ! i) is) = mset xs"
proof -
  have "mset (map (\<lambda>i. xs ! i) is) = image_mset (\<lambda>i. xs ! i) (mset is)"
    by simp
  also have "\<dots> = image_mset (\<lambda>i. xs ! i) (mset [0..<length xs])"
    by (simp only: assms)
  also have "\<dots> = mset (map (\<lambda>i. xs ! i) [0..<length xs])"
    by simp
  also have "\<dots> = mset xs"
    by (simp only: map_nth)
  finally show ?thesis .
qed

lemma indexFrom_found:
  "v \<in> set xs \<Longrightarrow> \<exists>m<length xs. indexFrom i xs v = int (i + m) \<and> xs ! m = v"
proof (induction xs arbitrary: i)
  case Nil
  then show ?case by simp
next
  case (Cons x xs)
  show ?case
  proof (cases "x = v")
    case True
    then show ?thesis by (intro exI [of _ 0]) simp
  next
    case False
    with Cons.prems have "v \<in> set xs" by simp
    from Cons.IH [OF this, of "i + 1"] obtain m where
      m: "m < length xs" "indexFrom (i + 1) xs v = int (i + 1 + m)" "xs ! m = v"
      by blast
    with False show ?thesis
      by (intro exI [of _ "Suc m"]) simp
  qed
qed

lemma indexFrom_absent: "v \<notin> set xs \<Longrightarrow> indexFrom i xs v = - 1"
  by (induction xs arbitrary: i) auto

lemma indexOf_found:
  "v \<in> set xs \<Longrightarrow> \<exists>m<length xs. indexOf xs v = int m \<and> xs ! m = v"
  using indexFrom_found [of v xs 0] by (simp add: indexOf_def)

lemma map_of_setField:
  "map_of (setField kvs name v) k = (if k = name then Some v else map_of kvs k)"
  by (induction kvs name v rule: setField.induct) auto

lemma getField_setField:
  "getField (JObj (setField kvs name v)) k =
   (if k = name then Some v else getField (JObj kvs) k)"
  by (simp add: map_of_setField)

lemma shuffleLoop_indices:
  assumes "randomOk rnd"
  shows "mset (shuffleLoop rnd k 3 [0, 1, 2, 3]) = mset [0..<4]"
proof -
  have "mset (shuffleLoop rnd k 3 [0, 1, 2, 3]) = mset [0, 1, 2, 3::nat]"
    using assms by (intro shuffleLoop_mset) simp_all
  moreover have "[0..<4] = [0, 1, 2, 3::nat]"
    by code_simp
  ultimately show ?thesis
    by (simp only:)
qed

lemma shuffleOptions_result:
  assumes rnd: "randomOk rnd"
    and opts: "getField q ''options'' = Some (JArr opts)" "length opts = 4"
    and ci: "getField q ''correctIndex'' = Some ci"
  shows "\<exists>opts'. shuffleOptions h rnd k q =
            Some (JObj (setField (setField (ownFields q) ''options'' (JArr opts'))
                     ''correctIndex''
                     (JNum (of_int (indexOf opts' (the (getIndex h (JArr opts) ci)))))),
                  k + 3)
          \<and> mset opts' = mset opts"
proof -
  let ?is = "shuffleLoop rnd k 3 [0, 1, 2, 3]"
  let ?opts' = "map (\<lambda>i. opts ! i) ?is"
  have p: "mset ?is = mset [0..<length opts]"
    using shuffleLoop_indices [OF rnd] opts(2) by simp
  then have "set ?is = set [0..<length opts]"
    by (rule mset_eq_setD)
  then have "\<forall>i\<in>set ?is. i < length opts"
    by simp
  then have m: "mapM (\<lambda>i. getIndex h (JArr opts) (JNum (of_nat i))) ?is = Some ?opts'"
    by (rule mapM_getIndex)
  have a: "getIndex h (JArr opts) ci \<noteq> None"
    by (simp add: getIndex_def split: jsval.splits)
  have "shuffleOptions h rnd k q =
            Some (JObj (setField (setField (ownFields q) ''options'' (JArr ?opts'))
                     ''correctIndex''
                     (JNum (of_int (indexOf ?opts' (the (getIndex h (JArr opts) ci)))))),
                  k + 3)"
    using opts(1) ci m a by (auto simp: shuffleOptions_def Let_def)
  moreover have "mset ?opts' = mset opts"
    using p by (rule mset_map_nth_perm)
  ultimately show ?thesis by blast
qed

lemma shuffleOptions_total:
  assumes "randomOk rnd" and "hasFourOptions q"
  shows "\<exists>q'. shuffleOptions h rnd k q = Some (q', k + 3)"
proof -
  from assms(2) obtain opts where
    o: "getField q ''options'' = Some (JArr opts)" "length opts = 4"
    by (auto simp: hasFourOptions_def split: option.splits jsval.splits)
  then have "q \<noteq> JNull" "q \<noteq> JUndefined"
    by auto
  then obtain ci where c: "getField q ''correctIndex'' = Some ci"
    by (cases q) auto
  from shuffleOptions_result [OF assms(1) o c, of h k] show ?thesis
    by blast
qed

lemma mapShuffle_total:
  assumes "randomOk rnd"
  shows "list_all hasFourOptions qs \<Longrightarrow>
         \<exists>qs'. mapShuffle h rnd k qs = Some (qs', k + 3 * length qs) \<and> length qs' = length qs"
proof (induction qs arbitrary: k)
  case Nil
  show ?case by simp
next
  case (Cons q qs)
  from Cons.prems have q: "hasFourOptions q" and qs: "list_all hasFourOptions qs"
    by simp_all
  from shuffleOptions_total [OF assms q, of h k] obtain q' where
    1: "shuffleOptions h rnd k q = Some (q', k + 3)"
    by blast
  from Cons.IH [OF qs, of "k + 3"] obtain qs' where
    2: "mapShuffle h rnd (k + 3) qs = Some (qs', k + 3 + 3 * length qs)" "length qs' = length qs"
    by blast
  from 1 2 show ?case
    by (simp add: add.assoc)
qed

lemma indexOf_absent: "v \<notin> set xs \<Longrightarrow> indexOf xs v = - 1"
  by (simp add: indexOf_def indexFrom_absent)

lemma getIndex_array_number:
  "getIndex h (JArr xs) (JNum r) =
     Some (if isInteger r \<and> 0 \<le> r \<and> r < of_nat (length xs) then xs ! nat \<lfloor>r\<rfloor> else JUndefined)"
  by (simp add: getIndex_def)

lemma isInteger_index:
  assumes "isInteger r" and "0 \<le> r" and "r \<le> 3"
  shows "nat \<lfloor>r\<rfloor> < 4" and "r < 4"
proof -
  from assms(3) show "r < 4"
    by simp
  from assms(3) have "\<lfloor>r\<rfloor> \<le> \<lfloor>3 :: rat\<rfloor>"
    by (rule floor_mono)
  then have "\<lfloor>r\<rfloor> \<le> 3"
    by simp
  then show "nat \<lfloor>r\<rfloor> < 4"
    by linarith
qed

text \<open>
  Claim C3. For a question with 4 options and a \<^verbatim>\<open>correctIndex\<close> from 0 to 3, and for every
  sequence of values of \<^verbatim>\<open>Math.random\<close>, \<^verbatim>\<open>shuffleOptions\<close> returns (it does not throw, and has
  drawn three numbers) a question \<open>q'\<close> whose options are a permutation of the given ones
  and for which \<^verbatim>\<open>q'.options[q'.correctIndex]\<close> is \<^verbatim>\<open>q.options[q.correctIndex]\<close>. When the
  given \<^verbatim>\<open>correctIndex\<close> is an integer, which is what an index is, the new one is an index
  from 0 to 3, at which the new options hold the answer. (When it is a fraction, both reads
  are \<^verbatim>\<open>undefined\<close>.)
\<close>

theorem shuffleOptions_preserves_answer:
  assumes "randomOk rnd"
    and "getField q ''options'' = Some (JArr opts)"
    and "length opts = 4"
    and "getField q ''correctIndex'' = Some (JNum r)"
    and "0 \<le> r" and "r \<le> 3"
  shows "\<exists>q' opts' r'.
           shuffleOptions h rnd k q = Some (q', k + 3)
           \<and> getField q' ''options'' = Some (JArr opts')
           \<and> mset opts' = mset opts
           \<and> getField q' ''correctIndex'' = Some (JNum r')
           \<and> getIndex h (JArr opts') (JNum r') = getIndex h (JArr opts) (JNum r)
           \<and> (isInteger r \<longrightarrow> (\<exists>m<4. r' = of_nat m \<and> opts' ! m = opts ! nat \<lfloor>r\<rfloor>))"
proof -
  let ?v = "the (getIndex h (JArr opts) (JNum r))"
  from shuffleOptions_result [OF assms(1-4), of h k] obtain opts' where
    s: "shuffleOptions h rnd k q =
            Some (JObj (setField (setField (ownFields q) ''options'' (JArr opts'))
                     ''correctIndex'' (JNum (of_int (indexOf opts' ?v)))),
                  k + 3)"
    and p: "mset opts' = mset opts"
    by blast
  let ?q' = "JObj (setField (setField (ownFields q) ''options'' (JArr opts'))
                     ''correctIndex'' (JNum (of_int (indexOf opts' ?v))))"
  have o: "getField ?q' ''options'' = Some (JArr opts')"
    by (simp add: map_of_setField)
  have c: "getField ?q' ''correctIndex'' = Some (JNum (of_int (indexOf opts' ?v)))"
    by (simp add: map_of_setField)
  from p have len: "length opts' = 4"
    using assms(3) mset_eq_length by fastforce
  from p have sets: "set opts' = set opts"
    by (rule mset_eq_setD)
  have v: "getIndex h (JArr opts) (JNum r) = Some ?v"
    by (simp add: getIndex_array_number)
  have int_case: "?v = opts ! nat \<lfloor>r\<rfloor> \<and> ?v \<in> set opts'" if "isInteger r"
  proof -
    from isInteger_index [OF that assms(5,6)] have n: "nat \<lfloor>r\<rfloor> < 4" "r < 4"
      by simp_all
    with that assms(3,5) have "?v = opts ! nat \<lfloor>r\<rfloor>"
      by (simp add: getIndex_array_number)
    moreover from n(1) assms(3) have "opts ! nat \<lfloor>r\<rfloor> \<in> set opts"
      by simp
    ultimately show ?thesis
      using sets by auto
  qed
  have frac_case: "?v = JUndefined" if "\<not> isInteger r"
    using that by (simp add: getIndex_array_number)
  have same: "getIndex h (JArr opts') (JNum (of_int (indexOf opts' ?v))) = Some ?v"
  proof (cases "?v \<in> set opts'")
    case True
    from indexOf_found [OF True] obtain m where
      m: "m < length opts'" "indexOf opts' ?v = int m" "opts' ! m = ?v"
      by blast
    then show ?thesis
      using getIndex_array_nat [of m opts' h] by simp
  next
    case False
    with int_case have "\<not> isInteger r"
      by blast
    then have "?v = JUndefined"
      by (rule frac_case)
    with False show ?thesis
      by (simp add: indexOf_absent getIndex_array_number)
  qed
  have idx: "\<exists>m<4. of_int (indexOf opts' ?v) = (of_nat m :: rat) \<and> opts' ! m = opts ! nat \<lfloor>r\<rfloor>"
    if "isInteger r"
  proof -
    from int_case [OF that] have e: "?v = opts ! nat \<lfloor>r\<rfloor>" and i: "?v \<in> set opts'"
      by blast+
    from indexOf_found [OF i] obtain m where
      m: "m < length opts'" "indexOf opts' ?v = int m" "opts' ! m = ?v"
      by blast
    with len e show ?thesis
      by (intro exI [of _ m]) simp
  qed
  from s o p c same v idx show ?thesis
    by (intro exI [of _ ?q'] exI [of _ opts'] exI [of _ "of_int (indexOf opts' ?v)"]) simp
qed

lemma randomOk_halves: "randomOk halves"
  by (simp add: randomOk_def halves_def)

theorem shuffleOptions_preserves_answer_witness:
  "randomOk halves
   \<and> (\<exists>q' opts' m.
         shuffleOptions plainHost halves 0
           (mkQuestion ''What river runs through Paris?''
              [''Rhine'', ''Loire'', ''Seine'', ''Danube''] 2
              ''The Seine divides Paris into the Left Bank and Right Bank.'') = Some (q', 3)
         \<and> getField q' ''options'' = Some (JArr opts')
         \<and> mset opts' = mset [JStr ''Rhine'', JStr ''Loire'', JStr ''Seine'', JStr ''Danube'']
         \<and> getField q' ''correctIndex'' = Some (JNum (of_nat m))
         \<and> m < 4
         \<and> opts' ! m = JStr ''Seine'')"
proof -
  let ?q = "mkQuestion ''What river runs through Paris?''
              [''Rhine'', ''Loire'', ''Seine'', ''Danube''] 2
              ''The Seine divides Paris into the Left Bank and Right Bank.''"
  let ?opts = "[JStr ''Rhine'', JStr ''Loire'', JStr ''Seine'', JStr ''Danube'']"
  have o: "getField ?q ''options'' = Some (JArr ?opts)"
    by (simp add: mkQuestion_def)
  have l: "length ?opts = 4"
    by simp
  have c: "getField ?q ''correctIndex'' = Some (JNum 2)"
    by (simp add: mkQuestion_def)
  have lo: "(0::rat) \<le> 2" and hi: "(2::rat) \<le> 3"
    by simp_all
  have i: "isInteger 2"
    by (simp add: isInteger_def)
  from shuffleOptions_preserves_answer [OF randomOk_halves o l c lo hi, of plainHost 0]
  obtain q' opts' r' where
    r: "shuffleOptions plainHost halves 0 ?q = Some (q', 3)"
       "getField q' ''options'' = Some (JArr opts')"
       "mset opts' = mset ?opts"
       "getField q' ''correctIndex'' = Some (JNum r')"
       "isInteger 2 \<longrightarrow> (\<exists>m<4. r' = of_nat m \<and> opts' ! m = ?opts ! nat \<lfloor>2::rat\<rfloor>)"
    by auto
  from r(5) i obtain m where m: "m < 4" "r' = of_nat m" "opts' ! m = ?opts ! nat \<lfloor>2::rat\<rfloor>"
    by blast
  from m(3) have a: "opts' ! m = JStr ''Seine''"
    by simp
  from r(4) m(2) have b: "getField q' ''correctIndex'' = Some (JNum (of_nat m))"
    by simp
  from r(1-3) b m(1) a have "\<exists>q' opts' m.
         shuffleOptions plainHost halves 0 ?q = Some (q', 3)
         \<and> getField q' ''options'' = Some (JArr opts')
         \<and> mset opts' = mset ?opts
         \<and> getField q' ''correctIndex'' = Some (JNum (of_nat m))
         \<and> m < 4
         \<and> opts' ! m = JStr ''Seine''"
    by blast
  with randomOk_halves show ?thesis
    by simp
qed

section \<open>Properties of the trivia validator\<close>

lemma strMethod_JStr: "strMethod v = Some s \<longleftrightarrow> v = JStr s"
  by (cases v) auto

lemma mapM_normalizeOption:
  "mapM normalizeOption xs = Some ns \<Longrightarrow>
   \<exists>ss. xs = map JStr ss \<and> ns = map (\<lambda>s. trim (toLowerCase s)) ss"
proof (induction xs arbitrary: ns)
  case Nil
  then show ?case by simp
next
  case (Cons x xs)
  from Cons.prems obtain n ns' where
    n: "normalizeOption x = Some n" and ns': "mapM normalizeOption xs = Some ns'"
    and e: "ns = n # ns'"
    by (auto split: option.splits)
  from n obtain s where s: "x = JStr s" "n = trim (toLowerCase s)"
    by (auto simp: normalizeOption_def strMethod_JStr)
  from Cons.IH [OF ns'] obtain ss where
    ss: "xs = map JStr ss" "ns' = map (\<lambda>s. trim (toLowerCase s)) ss"
    by blast
  from s ss e show ?case
    by (intro exI [of _ "s # ss"]) simp
qed

lemma setSize_distinct: "setSize xs = length xs \<Longrightarrow> distinct xs"
  by (metis distinct_remdups length_remdups_eq setSize_def)

lemma triviaFilter_shape:
  assumes "triviaFilter h q"
  shows "\<exists>opts r ff.
           getField q ''options'' = Some (JArr (map JStr opts))
           \<and> length opts = 4
           \<and> distinct (map (\<lambda>s. trim (toLowerCase s)) opts)
           \<and> getField q ''correctIndex'' = Some (JNum r) \<and> 0 \<le> r \<and> r \<le> 3
           \<and> getField q ''funFact'' = Some (JStr ff) \<and> 5 \<le> length (trim ff)"
proof -
  from assms have t: "triviaTry h q = Some True"
    by (simp add: triviaFilter_def split: option.splits)
  then obtain xs where xs: "getField q ''options'' = Some (JArr xs)" "length xs = 4"
    by (auto simp: triviaTry_def split: Option.bind_splits if_splits jsval.splits)
  from t xs obtain ci where ci: "getField q ''correctIndex'' = Some ci"
    "isNumber ci" "0 \<le> numberOf ci" "numberOf ci \<le> 3"
    by (auto simp: triviaTry_def split: Option.bind_splits if_splits jsval.splits)
  from ci(2) obtain r where r: "ci = JNum r"
    by (cases ci) auto
  from t xs ci obtain ns where ns: "mapM normalizeOption xs = Some ns" "setSize ns = 4"
    by (auto simp: triviaTry_def split: Option.bind_splits if_splits jsval.splits)
  from mapM_normalizeOption [OF ns(1)] obtain opts where
    opts: "xs = map JStr opts" "ns = map (\<lambda>s. trim (toLowerCase s)) opts"
    by blast
  from opts xs(2) ns(2) have "setSize ns = length ns"
    by simp
  then have d: "distinct ns"
    by (rule setSize_distinct)
  from t xs ci ns obtain fv tr where f: "getField q ''funFact'' = Some fv"
    "map_option trim (strMethod fv) = Some tr" "5 \<le> length tr"
    by (auto simp: triviaTry_def not_less split: Option.bind_splits if_splits jsval.splits)
  from f(2) obtain ff where ff: "fv = JStr ff" "tr = trim ff"
    by (auto simp: strMethod_JStr)
  from xs opts d ci r f ff show ?thesis
    by auto
qed

lemma triviaFilter_hasFourOptions: "triviaFilter h q \<Longrightarrow> hasFourOptions q"
  using triviaFilter_shape [of h q] by (auto simp: hasFourOptions_def)

lemma mapShuffle_member:
  "mapShuffle h rnd k qs = Some (qs', k') \<Longrightarrow> q' \<in> set qs' \<Longrightarrow>
   \<exists>q\<in>set qs. \<exists>j j'. shuffleOptions h rnd j q = Some (q', j')"
proof (induction qs arbitrary: k qs' k')
  case Nil
  then show ?case by simp
next
  case (Cons a qs)
  from Cons.prems(1) obtain a' k1 rest where
    a: "shuffleOptions h rnd k a = Some (a', k1)" and
    r: "mapShuffle h rnd k1 qs = Some (rest, k')" and
    e: "qs' = a' # rest"
    by (auto split: option.splits prod.splits)
  from Cons.prems(2) e have "q' = a' \<or> q' \<in> set rest"
    by simp
  then show ?case
  proof
    assume "q' = a'"
    with a show ?thesis
      by auto
  next
    assume "q' \<in> set rest"
    from Cons.IH [OF r this] show ?thesis
      by auto
  qed
qed

lemma all_strings:
  assumes "set xs \<subseteq> range JStr"
  obtains ss where "xs = map JStr ss"
proof -
  from assms have "\<exists>ss. xs = map JStr ss"
  proof (induction xs)
    case Nil
    then show ?case by simp
  next
    case (Cons x xs)
    then obtain s ss where "x = JStr s" "xs = map JStr ss"
      by auto
    then have "x # xs = map JStr (s # ss)"
      by simp
    then show ?case
      by (rule exI)
  qed
  with that show ?thesis
    by blast
qed

lemma indexOf_range: "indexOf xs v = - 1 \<or> (\<exists>m<length xs. indexOf xs v = int m)"
  using indexOf_found [of v xs] indexOf_absent [of v xs] by blast

lemma getField_after_shuffle:
  assumes "name \<noteq> ''options''" and "name \<noteq> ''correctIndex''"
    and "getField q ''options'' = Some (JArr opts)"
  shows "getField (JObj (setField (setField (ownFields q) ''options'' a) ''correctIndex'' b))
           name = getField q name"
proof -
  from assms(3) obtain kvs where "q = JObj kvs"
    by (cases q) auto
  with assms(1,2) show ?thesis
    by (simp add: map_of_setField)
qed

lemma shuffleOptions_shape:
  assumes "randomOk rnd" and "triviaFilter h q"
    and "shuffleOptions h rnd j q = Some (q', j')"
  shows "\<exists>opts ff r'.
           getField q' ''options'' = Some (JArr (map JStr opts))
           \<and> length opts = 4
           \<and> distinct (map (\<lambda>s. trim (toLowerCase s)) opts)
           \<and> getField q' ''funFact'' = Some (JStr ff) \<and> 5 \<le> length (trim ff)
           \<and> getField q' ''correctIndex'' = Some (JNum r')
           \<and> (r' = - 1 \<or> r' = 0 \<or> r' = 1 \<or> r' = 2 \<or> r' = 3)"
proof -
  from triviaFilter_shape [OF assms(2)] obtain opts r ff where
    q: "getField q ''options'' = Some (JArr (map JStr opts))" "length opts = 4"
       "distinct (map (\<lambda>s. trim (toLowerCase s)) opts)"
       "getField q ''correctIndex'' = Some (JNum r)"
       "getField q ''funFact'' = Some (JStr ff)" "5 \<le> length (trim ff)"
    by blast
  have l: "length (map JStr opts) = 4"
    using q(2) by simp
  let ?v = "the (getIndex h (JArr (map JStr opts)) (JNum r))"
  from shuffleOptions_result [OF assms(1) q(1) l q(4), of h j] obtain opts' where
    s: "shuffleOptions h rnd j q =
          Some (JObj (setField (setField (ownFields q) ''options'' (JArr opts'))
                   ''correctIndex'' (JNum (of_int (indexOf opts' ?v)))), j + 3)"
    and p: "mset opts' = mset (map JStr opts)"
    by blast
  let ?b = "JNum (of_int (indexOf opts' ?v))"
  from s assms(3) have q': "q' = JObj (setField (setField (ownFields q) ''options''
      (JArr opts')) ''correctIndex'' ?b)"
    by simp
  from p have "set opts' = set (map JStr opts)"
    by (rule mset_eq_setD)
  then have "set opts' \<subseteq> range JStr"
    by auto
  then obtain ss where ss: "opts' = map JStr ss"
    by (rule all_strings)
  from p l have len: "length ss = 4"
    unfolding ss using mset_eq_length by fastforce
  let ?g = "\<lambda>v. case v of JStr s \<Rightarrow> trim (toLowerCase s) | _ \<Rightarrow> []"
  from p have "mset (map ?g opts') = mset (map ?g (map JStr opts))"
    by (metis mset_map)
  then have "mset (map (\<lambda>s. trim (toLowerCase s)) ss) =
      mset (map (\<lambda>s. trim (toLowerCase s)) opts)"
    unfolding ss by (simp add: comp_def)
  with q(3) have d: "distinct (map (\<lambda>s. trim (toLowerCase s)) ss)"
    using mset_eq_imp_distinct_iff by blast
  have o: "getField q' ''options'' = Some (JArr (map JStr ss))"
    unfolding q' ss(1) by (simp add: map_of_setField)
  have c: "getField q' ''correctIndex'' = Some ?b"
    unfolding q' by (simp add: map_of_setField)
  have f: "getField q' ''funFact'' = Some (JStr ff)"
    unfolding q' using getField_after_shuffle [OF _ _ q(1), of "''funFact''"] q(5) by simp
  from indexOf_range [of opts' ?v] p l have
    "indexOf opts' ?v = - 1 \<or> (\<exists>m<4. indexOf opts' ?v = int m)"
    using mset_eq_length by fastforce
  then have i: "(of_int (indexOf opts' ?v) :: rat) = - 1 \<or> (of_int (indexOf opts' ?v) :: rat) = 0
      \<or> (of_int (indexOf opts' ?v) :: rat) = 1 \<or> (of_int (indexOf opts' ?v) :: rat) = 2
      \<or> (of_int (indexOf opts' ?v) :: rat) = 3"
  proof
    assume "indexOf opts' ?v = - 1"
    then show ?thesis by simp
  next
    assume "\<exists>m<4. indexOf opts' ?v = int m"
    then obtain m where m: "m < 4" "indexOf opts' ?v = int m"
      by blast
    from m(1) have "m = 0 \<or> m = 1 \<or> m = 2 \<or> m = 3"
      by arith
    with m(2) show ?thesis
      by auto
  qed
  from o len d f q(6) c i show ?thesis
    by (intro exI [of _ ss] exI [of _ ff] exI [of _ "of_int (indexOf opts' ?v)"]) simp
qed

text \<open>
  What holds of every list of candidates and every sequence of values of \<^verbatim>\<open>Math.random\<close>:
  \<^verbatim>\<open>validateTriviaQuestions\<close> returns, and every question it returns has exactly 4 options,
  all strings, pairwise distinct after lower-casing and trimming, a \<^verbatim>\<open>funFact\<close> whose trimmed
  length is at least 5, and a \<^verbatim>\<open>correctIndex\<close> that is -1, 0, 1, 2 or 3.
\<close>

lemma validateTriviaQuestions_outputs:
  assumes "randomOk rnd"
  shows "\<exists>qs. validateTriviaQuestions h rnd k questions poiNames =
             Some (qs, k + 3 * length (filter (triviaFilter h) questions))
        \<and> (\<forall>q'\<in>set qs. \<exists>opts ff r'.
             getField q' ''options'' = Some (JArr (map JStr opts))
             \<and> length opts = 4
             \<and> distinct (map (\<lambda>s. trim (toLowerCase s)) opts)
             \<and> getField q' ''funFact'' = Some (JStr ff) \<and> 5 \<le> length (trim ff)
             \<and> getField q' ''correctIndex'' = Some (JNum r')
             \<and> (r' = - 1 \<or> r' = 0 \<or> r' = 1 \<or> r' = 2 \<or> r' = 3))"
proof -
  let ?fs = "filter (triviaFilter h) questions"
  have "list_all hasFourOptions ?fs"
    by (auto simp: list_all_iff intro: triviaFilter_hasFourOptions)
  from mapShuffle_total [OF assms this, of h k] obtain qs where
    m: "mapShuffle h rnd k ?fs = Some (qs, k + 3 * length ?fs)"
    by blast
  have "\<exists>opts ff r'.
             getField q' ''options'' = Some (JArr (map JStr opts))
             \<and> length opts = 4
             \<and> distinct (map (\<lambda>s. trim (toLowerCase s)) opts)
             \<and> getField q' ''funFact'' = Some (JStr ff) \<and> 5 \<le> length (trim ff)
             \<and> getField q' ''correctIndex'' = Some (JNum r')
             \<and> (r' = - 1 \<or> r' = 0 \<or> r' = 1 \<or> r' = 2 \<or> r' = 3)"
    if "q' \<in> set qs" for q'
  proof -
    from mapShuffle_member [OF m that] obtain q j j' where
      q: "q \<in> set ?fs" "shuffleOptions h rnd j q = Some (q', j')"
      by blast
    from q(1) have "triviaFilter h q"
      by simp
    from shuffleOptions_shape [OF assms this q(2)] show ?thesis .
  qed
  with m show ?thesis
    by (auto simp: validateTriviaQuestions_def)
qed

text \<open>
  Claim C2 says that every question \<^verbatim>\<open>validateTriviaQuestions\<close> returns has a
  \<^verbatim>\<open>correctIndex\<close> in \<open>{0, 1, 2, 3}\<close>. The filter tests \<^verbatim>\<open>typeof q.correctIndex === "number"\<close>
  and the range from 0 to 3, and not that the number is an integer. A candidate with
  \<^verbatim>\<open>"correctIndex": 1.5\<close>, otherwise well-formed, passes the filter; in \<^verbatim>\<open>shuffleOptions\<close> the
  read \<^verbatim>\<open>q.options[1.5]\<close> is \<^verbatim>\<open>undefined\<close>, \<^verbatim>\<open>indexOf(undefined)\<close> is -1, and the question is
  returned with \<^verbatim>\<open>correctIndex\<close> -1. The theorem evaluates the function at that input.
  By the lemma above, -1 is the only value outside the range that a returned question
  can have.
\<close>

theorem validateTriviaQuestions_fractional_index:
  "validateTriviaQuestions plainHost halves 0
     [mkQuestion ''Which tower opened in 1889?''
        [''Eiffel Tower'', ''Tokyo Tower'', ''Willis Tower'', ''CN Tower''] (3 / 2)
        ''Built for the 1889 World Fair.'']
     []
   = Some ([mkQuestion ''Which tower opened in 1889?''
              [''Eiffel Tower'', ''CN Tower'', ''Tokyo Tower'', ''Willis Tower''] (- 1)
              ''Built for the 1889 World Fair.''], 3)"
  by code_simp

section \<open>Properties of the ranking comparator\<close>

lemma getBucket_defined: "popValues \<noteq> [] \<Longrightarrow> getBucket popValues score \<noteq> None"
  by (simp add: getBucket_def Let_def)

lemma popValuesOf_nonempty: "a \<in> set ranked \<Longrightarrow> popValuesOf ranked \<noteq> []"
proof -
  assume "a \<in> set ranked"
  then have "length (popValuesOf ranked) \<noteq> 0"
    by (auto simp: popValuesOf_def)
  then show ?thesis
    by auto
qed

lemma compareRanked_same_bucket:
  assumes "getBucket popValues (popularityScore a) = Some bucket"
    and "getBucket popValues (popularityScore b) = Some bucket"
    and "distanceKm a = Some da" and "distanceKm b = Some db"
  shows "compareRanked popValues a b = Some (da - db)"
  using assms by (simp add: compareRanked_def)

lemma compareRanked_other_bucket:
  assumes "getBucket popValues (popularityScore a) = Some bucketA"
    and "getBucket popValues (popularityScore b) = Some bucketB"
    and "bucketA \<noteq> bucketB"
  shows "compareRanked popValues a b = Some (of_int (bucketB - bucketA))"
  using assms by (auto simp: compareRanked_def)

text \<open>
  Claim C7. For two items of the ranked pool \<open>a\<close> and \<open>b\<close>: both have a bucket; if the
  buckets are equal and both distances are known, the comparator is negative at \<open>(a, b)\<close>
  and positive at \<open>(b, a)\<close> when \<open>a\<close> is nearer, so the sort puts \<open>a\<close> before \<open>b\<close>; if the
  bucket of \<open>a\<close> is greater than the bucket of \<open>b\<close>, the comparator is negative at
  \<open>(a, b)\<close> and positive at \<open>(b, a)\<close>, whatever the distances: descending bucket.
\<close>

theorem compareRanked_bucket_then_distance:
  assumes "a \<in> set ranked" and "b \<in> set ranked"
  shows "\<exists>bucketA bucketB.
      getBucket (popValuesOf ranked) (popularityScore a) = Some bucketA
    \<and> getBucket (popValuesOf ranked) (popularityScore b) = Some bucketB
    \<and> (\<forall>da db. bucketA = bucketB \<and> distanceKm a = Some da \<and> distanceKm b = Some db \<and> da < db \<longrightarrow>
          (\<exists>c. compareRanked (popValuesOf ranked) a b = Some c \<and> c < 0)
          \<and> (\<exists>c. compareRanked (popValuesOf ranked) b a = Some c \<and> c > 0))
    \<and> (bucketA > bucketB \<longrightarrow>
          (\<exists>c. compareRanked (popValuesOf ranked) a b = Some c \<and> c < 0)
          \<and> (\<exists>c. compareRanked (popValuesOf ranked) b a = Some c \<and> c > 0))"
proof -
  from assms(1) have n: "popValuesOf ranked \<noteq> []"
    by (rule popValuesOf_nonempty)
  from getBucket_defined [OF n] obtain bucketA bucketB where
    A: "getBucket (popValuesOf ranked) (popularityScore a) = Some bucketA" and
    B: "getBucket (popValuesOf ranked) (popularityScore b) = Some bucketB"
    by blast
  have 1: "(\<exists>c. compareRanked (popValuesOf ranked) a b = Some c \<and> c < 0)
          \<and> (\<exists>c. compareRanked (popValuesOf ranked) b a = Some c \<and> c > 0)"
    if "bucketA = bucketB" "distanceKm a = Some da" "distanceKm b = Some db" "da < db"
    for da db
  proof -
    from A B that have "compareRanked (popValuesOf ranked) a b = Some (da - db)"
      by (intro compareRanked_same_bucket) simp_all
    moreover from A B that have "compareRanked (popValuesOf ranked) b a = Some (db - da)"
      by (intro compareRanked_same_bucket) simp_all
    ultimately show ?thesis
      using that(4) by simp
  qed
  have 2: "(\<exists>c. compareRanked (popValuesOf ranked) a b = Some c \<and> c < 0)
          \<and> (\<exists>c. compareRanked (popValuesOf ranked) b a = Some c \<and> c > 0)"
    if "bucketA > bucketB"
  proof -
    from A B that have
      "compareRanked (popValuesOf ranked) a b = Some (of_int (bucketB - bucketA))"
      by (intro compareRanked_other_bucket) simp_all
    moreover from A B that have
      "compareRanked (popValuesOf ranked) b a = Some (of_int (bucketA - bucketB))"
      by (intro compareRanked_other_bucket) simp_all
    ultimately show ?thesis
      using that by simp
  qed
  from A B 1 2 show ?thesis
    by blast
qed

theorem compareRanked_bucket_then_distance_witness:
  "popValuesOf [\<lparr>distanceKm = Some 8, popularityScore = 10\<rparr>,
                \<lparr>distanceKm = Some 2, popularityScore = 10\<rparr>,
                \<lparr>distanceKm = Some 1, popularityScore = 1\<rparr>] = [1, 10, 10]
   \<and> getBucket [1, 10, 10] 10 = Some 3
   \<and> getBucket [1, 10, 10] 1 = Some 0
   \<and> (\<exists>c. compareRanked [1, 10, 10]
             \<lparr>distanceKm = Some 2, popularityScore = 10\<rparr>
             \<lparr>distanceKm = Some 8, popularityScore = 10\<rparr> = Some c \<and> c < 0)
   \<and> (\<exists>c. compareRanked [1, 10, 10]
             \<lparr>distanceKm = Some 8, popularityScore = 10\<rparr>
             \<lparr>distanceKm = Some 2, popularityScore = 10\<rparr> = Some c \<and> c > 0)
   \<and> (\<exists>c. compareRanked [1, 10, 10]
             \<lparr>distanceKm = Some 8, popularityScore = 10\<rparr>
             \<lparr>distanceKm = Some 1, popularityScore = 1\<rparr> = Some c \<and> c < 0)
   \<and> (\<exists>c. compareRanked [1, 10, 10]
             \<lparr>distanceKm = Some 1, popularityScore = 1\<rparr>
             \<lparr>distanceKm = Some 8, popularityScore = 10\<rparr> = Some c \<and> c > 0)"
proof -
  let ?far = "\<lparr>distanceKm = Some 8, popularityScore = 10\<rparr>"
  let ?near = "\<lparr>distanceKm = Some 2, popularityScore = 10\<rparr>"
  let ?low = "\<lparr>distanceKm = Some 1, popularityScore = 1\<rparr>"
  let ?ranked = "[?far, ?near, ?low]"
  have pv: "popValuesOf ?ranked = [1, 10, 10]"
    by code_simp
  have b10: "getBucket [1, 10, 10] 10 = Some 3"
    by code_simp
  have b1: "getBucket [1, 10, 10] 1 = Some 0"
    by code_simp
  have near: "?near \<in> set ?ranked" and far: "?far \<in> set ?ranked" and low: "?low \<in> set ?ranked"
    by simp_all
  from compareRanked_bucket_then_distance [OF near far]
  have 1: "(\<exists>c. compareRanked [1, 10, 10] ?near ?far = Some c \<and> c < 0)
      \<and> (\<exists>c. compareRanked [1, 10, 10] ?far ?near = Some c \<and> c > 0)"
    unfolding pv by (simp add: b10)
  from compareRanked_bucket_then_distance [OF far low]
  have 2: "(\<exists>c. compareRanked [1, 10, 10] ?far ?low = Some c \<and> c < 0)
      \<and> (\<exists>c. compareRanked [1, 10, 10] ?low ?far = Some c \<and> c > 0)"
    unfolding pv by (simp add: b10 b1)
  from pv b10 b1 1 2 show ?thesis
    by blast
qed

section \<open>Properties of the defensive parser\<close>

lemma tryCatch_value:
  "tryCatch body (Some d) = Some (case body of Some v \<Rightarrow> v | None \<Rightarrow> d)"
  by (simp add: tryCatch_def split: option.splits)









section \<open>Properties of the geocode cache\<close>













lemma normalise_paris: "trim (toLowerCase '' PARIS '') = ''paris''"
  by code_simp

lemma normalise_atlantis: "trim (toLowerCase ''Atlantis'') = ''atlantis''"
  by code_simp

lemma first_lookup_stores:
  "geocode numberOf Map.empty (addressBody '' PARIS '')
     (FetchJson (JArr [JObj [(''lat'', JNum (4885 / 100)), (''lon'', JNum (235 / 100))]])) =
   (Coords \<lparr>coordLat = 4885 / 100, coordLng = 235 / 100\<rparr>,
    [''paris'' \<mapsto> Some \<lparr>coordLat = 4885 / 100, coordLng = 235 / 100\<rparr>],
    True)"
  by (simp add: geocode_def geocodeArrive_def geocodeComplete_def addressBody_def
        normalise_paris Let_def)

lemma failed_lookup_stores:
  "geocode numberOf Map.empty (addressBody ''Atlantis'') (FetchJson (JArr [])) =
   (Failure 404 ''Location not found'', [''atlantis'' \<mapsto> None], True)"
  by (simp add: geocode_def geocodeArrive_def geocodeComplete_def addressBody_def
        normalise_atlantis Let_def)


section \<open>Properties of the error path of the quiz endpoint\<close>

lemma curated_hasFourOptions:
  "list_all (\<lambda>(name, questions). list_all hasFourOptions questions \<and> questions \<noteq> [])
     CURATED_QUESTIONS"
  by code_simp

lemma generic_hasFourOptions:
  "list_all hasFourOptions (genericQuestions city) \<and> genericQuestions city \<noteq> []"
  by (simp add: genericQuestions_def mkQuestion_def hasFourOptions_def)

lemma getFallbackQuestions_hasFourOptions:
  "list_all hasFourOptions (getFallbackQuestions city) \<and> getFallbackQuestions city \<noteq> []"
proof (cases "find (\<lambda>(name, questions). includesStr (trim (toLowerCase city)) name
                      \<or> includesStr name (trim (toLowerCase city))) CURATED_QUESTIONS")
  case None
  then show ?thesis
    by (simp add: getFallbackQuestions_def generic_hasFourOptions)
next
  case (Some entry)
  then have "entry \<in> set CURATED_QUESTIONS"
    by (metis find_Some_iff nth_mem)
  with curated_hasFourOptions have
    "list_all hasFourOptions (snd entry) \<and> snd entry \<noteq> []"
    by (auto simp: list_all_iff)
  with Some show ?thesis
    by (cases entry) (simp add: getFallbackQuestions_def)
qed

lemma quizGenerateCatch_supplied:
  assumes "getField body ''cityPlaceId'' = Some pid" and "truthy pid"
  shows "quizGenerateCatch h rnd k body =
     Some (Payload 503
             \<lparr>respError = Some ''Quiz generation temporarily unavailable. Please try again.'',
              respQuestions = [], respQuestionIds = [],
              respPoolExhausted = False, respSource = ''error''\<rparr>, k)"
  using assms by (simp add: quizGenerateCatch_def optionalField_def Let_def)

lemma quizGenerateCatch_not_supplied:
  assumes "randomOk rnd"
    and "getField body ''city'' = Some (JStr city)" and "city \<noteq> []"
    and "getField body ''cityPlaceId'' = Some pid" and "\<not> truthy pid"
  shows "\<exists>questions.
     mapShuffle h rnd k (getFallbackQuestions city) =
       Some (questions, k + 3 * length (getFallbackQuestions city))
     \<and> length questions = length (getFallbackQuestions city)
     \<and> questions \<noteq> []
     \<and> quizGenerateCatch h rnd k body =
         Some (Payload 200
                 \<lparr>respError = None, respQuestions = questions, respQuestionIds = [],
                  respPoolExhausted = False, respSource = ''fallback''\<rparr>,
               k + 3 * length (getFallbackQuestions city))"
proof -
  from getFallbackQuestions_hasFourOptions [of city] have
    f: "list_all hasFourOptions (getFallbackQuestions city)" "getFallbackQuestions city \<noteq> []"
    by simp_all
  from mapShuffle_total [OF assms(1) f(1), of h k] obtain questions where
    m: "mapShuffle h rnd k (getFallbackQuestions city) =
          Some (questions, k + 3 * length (getFallbackQuestions city))"
       "length questions = length (getFallbackQuestions city)"
    by blast
  from m(2) f(2) have "questions \<noteq> []"
    by auto
  moreover have "quizGenerateCatch h rnd k body =
         Some (Payload 200
                 \<lparr>respError = None, respQuestions = questions, respQuestionIds = [],
                  respPoolExhausted = False, respSource = ''fallback''\<rparr>,
               k + 3 * length (getFallbackQuestions city))"
    using assms(2-5) m(1) by (simp add: quizGenerateCatch_def optionalField_def Let_def)
  ultimately show ?thesis
    using m by blast
qed

text \<open>
  Claim C6. Let the request carry a city (a non-empty string, or the handler answers 400
  before the pipeline runs) and let the pipeline throw.
  \<^item> If the request carries a \<^verbatim>\<open>cityPlaceId\<close> (a truthy one), the response is 503 with empty
    \<^verbatim>\<open>questions\<close> and \<^verbatim>\<open>questionIds\<close> and source \<^verbatim>\<open>"error"\<close>: no curated question is sent.
  \<^item> If it carries none (the property is missing or falsy), the response is 200 with source
    \<^verbatim>\<open>"fallback"\<close>, and its questions are the fallback questions of the city (the curated
    set of a known city, or the five generic ones), each one shuffled; there is at least
    one.
\<close>

theorem quizGenerate_error_path:
  assumes "randomOk rnd"
    and "getField body ''city'' = Some (JStr city)" and "city \<noteq> []"
    and "getField body ''cityPlaceId'' = Some pid"
  shows "(truthy pid \<longrightarrow>
           quizGenerate h rnd k (Throws k') body =
             Some (Payload 503
                     \<lparr>respError =
                        Some ''Quiz generation temporarily unavailable. Please try again.'',
                      respQuestions = [], respQuestionIds = [],
                      respPoolExhausted = False, respSource = ''error''\<rparr>, k'))
    \<and> (\<not> truthy pid \<longrightarrow>
          (\<exists>questions.
             mapShuffle h rnd k' (getFallbackQuestions city) =
               Some (questions, k' + 3 * length (getFallbackQuestions city))
             \<and> length questions = length (getFallbackQuestions city)
             \<and> questions \<noteq> []
             \<and> quizGenerate h rnd k (Throws k') body =
                 Some (Payload 200
                         \<lparr>respError = None, respQuestions = questions, respQuestionIds = [],
                          respPoolExhausted = False, respSource = ''fallback''\<rparr>,
                       k' + 3 * length (getFallbackQuestions city))))"
proof -
  have g: "quizGenerate h rnd k (Throws k') body = quizGenerateCatch h rnd k' body"
    using assms(2,3) by (simp add: quizGenerate_def)
  show ?thesis
  proof (intro conjI impI)
    assume "truthy pid"
    with assms(4) show "quizGenerate h rnd k (Throws k') body =
             Some (Payload 503
                     \<lparr>respError =
                        Some ''Quiz generation temporarily unavailable. Please try again.'',
                      respQuestions = [], respQuestionIds = [],
                      respPoolExhausted = False, respSource = ''error''\<rparr>, k')"
      unfolding g by (rule quizGenerateCatch_supplied)
  next
    assume "\<not> truthy pid"
    with assms show "\<exists>questions.
             mapShuffle h rnd k' (getFallbackQuestions city) =
               Some (questions, k' + 3 * length (getFallbackQuestions city))
             \<and> length questions = length (getFallbackQuestions city)
             \<and> questions \<noteq> []
             \<and> quizGenerate h rnd k (Throws k') body =
                 Some (Payload 200
                         \<lparr>respError = None, respQuestions = questions, respQuestionIds = [],
                          respPoolExhausted = False, respSource = ''fallback''\<rparr>,
                       k' + 3 * length (getFallbackQuestions city))"
      unfolding g by (intro quizGenerateCatch_not_supplied)
  qed
qed

lemma getFallbackQuestions_Paris: "getFallbackQuestions ''Paris'' = curated_paris"
  by code_simp

lemma length_curated_paris: "length curated_paris = 8"
  by (simp add: curated_paris_def)

theorem quizGenerate_error_path_witness:
  "randomOk halves
   \<and> quizGenerate plainHost halves 0 (Throws 0)
       (quizRequest ''Paris'' (JStr ''ChIJD7fiBh9u5kcRYJSMaMOCCwQ'')) =
       Some (Payload 503
               \<lparr>respError = Some ''Quiz generation temporarily unavailable. Please try again.'',
                respQuestions = [], respQuestionIds = [],
                respPoolExhausted = False, respSource = ''error''\<rparr>, 0)
   \<and> (\<exists>questions.
         mapShuffle plainHost halves 0 curated_paris = Some (questions, 24)
         \<and> length questions = 8
         \<and> quizGenerate plainHost halves 0 (Throws 0) (JObj [(''city'', JStr ''Paris'')]) =
             Some (Payload 200
                     \<lparr>respError = None, respQuestions = questions, respQuestionIds = [],
                      respPoolExhausted = False, respSource = ''fallback''\<rparr>, 24))"
proof -
  have r: "randomOk halves"
    by (simp add: randomOk_def halves_def)
  have c1: "getField (quizRequest ''Paris'' (JStr ''ChIJD7fiBh9u5kcRYJSMaMOCCwQ'')) ''city'' =
      Some (JStr ''Paris'')"
    by (simp add: quizRequest_def)
  have p1: "getField (quizRequest ''Paris'' (JStr ''ChIJD7fiBh9u5kcRYJSMaMOCCwQ''))
      ''cityPlaceId'' = Some (JStr ''ChIJD7fiBh9u5kcRYJSMaMOCCwQ'')"
    by (simp add: quizRequest_def)
  have c2: "getField (JObj [(''city'', JStr ''Paris'')]) ''city'' = Some (JStr ''Paris'')"
    by simp
  have p2: "getField (JObj [(''city'', JStr ''Paris'')]) ''cityPlaceId'' = Some JUndefined"
    by simp
  have n: "''Paris'' \<noteq> []"
    by simp
  from quizGenerate_error_path [OF r c1 n p1, of plainHost 0 0]
  have 1: "quizGenerate plainHost halves 0 (Throws 0)
       (quizRequest ''Paris'' (JStr ''ChIJD7fiBh9u5kcRYJSMaMOCCwQ'')) =
       Some (Payload 503
               \<lparr>respError = Some ''Quiz generation temporarily unavailable. Please try again.'',
                respQuestions = [], respQuestionIds = [],
                respPoolExhausted = False, respSource = ''error''\<rparr>, 0)"
    by simp
  from quizGenerate_error_path [OF r c2 n p2, of plainHost 0 0]
  have 2: "\<exists>questions.
         mapShuffle plainHost halves 0 curated_paris = Some (questions, 24)
         \<and> length questions = 8
         \<and> quizGenerate plainHost halves 0 (Throws 0) (JObj [(''city'', JStr ''Paris'')]) =
             Some (Payload 200
                     \<lparr>respError = None, respQuestions = questions, respQuestionIds = [],
                      respPoolExhausted = False, respSource = ''fallback''\<rparr>, 24)"
    by (simp add: getFallbackQuestions_Paris length_curated_paris) blast
  from r 1 2 show ?thesis
    by blast
qed

end
